theory Spec2Isabelle
  imports Main
begin

section \<open>Errors\<close>

text \<open>
  The errors of \<^verbatim>\<open>auth/sso/server.ts\<close> are subclasses of \<^verbatim>\<open>ToolkitError\<close>, each built
  by \<^verbatim>\<open>super(message, { code })\<close>. An error value carries its class (what \<^verbatim>\<open>instanceof\<close>
  and \<^verbatim>\<open>deepStrictEqual\<close> see), its message and the fields of the info object: the code,
  the name and the cancelled flag. \<^verbatim>\<open>CancellationError(agent)\<close> comes from
  \<^verbatim>\<open>timeoutUtils\<close>, \<^verbatim>\<open>SSOOIDCServiceException\<close> from the AWS SDK; any other thrown
  value (a Node system error, say) is an \<open>OtherError\<close> with its name and message.
  \<^verbatim>\<open>err.message\<close> is the selector \<open>err_message\<close> of a \<^verbatim>\<open>ToolkitError\<close> and \<open>svc_message\<close>
  of an \<^verbatim>\<open>SSOOIDCServiceException\<close>.
\<close>

datatype error_class =
    ToolkitError_class
  | MissingPortError_class
  | MissingCodeError_class
  | MissingStateError_class
  | InvalidStateError_class
  | AuthError_class

datatype error =
    Toolkit (err_class: error_class) (err_message: string) (err_code: "string option")
      (err_name: "string option") (err_cancelled: bool)
  | CancellationError (agent: string)
  | SSOOIDCServiceException (svc_name: string) (svc_message: string)
  | OtherError (other_name: string) (other_message: string)

definition ToolkitError :: "string \<Rightarrow> error" where
  "ToolkitError msg = Toolkit ToolkitError_class msg None None False"

definition MissingPortError :: error where
  "MissingPortError =
     Toolkit MissingPortError_class ''AuthSSOServer: missing auth server port''
       (Some ''MissingPort'') None False"

definition MissingCodeError :: error where
  "MissingCodeError =
     Toolkit MissingCodeError_class ''AuthSSOServer: missing code'' (Some ''MissingCode'') None False"

definition MissingStateError :: error where
  "MissingStateError =
     Toolkit MissingStateError_class ''AuthSSOServer: missing state'' (Some ''MissingState'') None False"

definition InvalidStateError :: error where
  "InvalidStateError =
     Toolkit InvalidStateError_class ''AuthSSOServer: invalid state'' (Some ''InvalidState'') None False"

definition AuthError :: "string \<Rightarrow> string \<Rightarrow> error" where
  "AuthError err errorDescription =
     Toolkit AuthError_class (err @ '': '' @ errorDescription) (Some ''AuthRedirectError'') None False"

section \<open>The redirect listener (auth/sso/server.ts)\<close>

subsection \<open>Query parameters\<close>

text \<open>
  \<^verbatim>\<open>URLSearchParams\<close> is an ordered list of name/value pairs in which a name may occur
  more than once: \<^verbatim>\<open>has\<close> tells whether a name occurs, \<^verbatim>\<open>get\<close> returns the value of
  its first occurrence or \<^verbatim>\<open>null\<close>.
\<close>

type_synonym URLSearchParams = "(string \<times> string) list"

fun params_get :: "URLSearchParams \<Rightarrow> string \<Rightarrow> string option" where
  "params_get [] name = None"
| "params_get ((k, v) # ps) name = (if k = name then Some v else params_get ps name)"

fun params_has :: "URLSearchParams \<Rightarrow> string \<Rightarrow> bool" where
  "params_has [] name = False"
| "params_has ((k, v) # ps) name = (k = name \<or> params_has ps name)"

subsection \<open>The server object\<close>

text \<open>
  \<^verbatim>\<open>server.address()\<close> of Node's \<^verbatim>\<open>http.Server\<close> is an \<^verbatim>\<open>AddressInfo\<close> object with a
  port (a TCP listener), a string (a pipe or a UNIX domain socket) or \<^verbatim>\<open>null\<close> (not
  listening). For the string, \<open>PipeName p n\<close> carries beside the path \<open>p\<close> the number \<open>n\<close>
  that the built-in \<^verbatim>\<open>parseInt\<close> reads from it (\<open>None\<close> is \<^verbatim>\<open>NaN\<close>).
\<close>

datatype address = AddressInfo (port: nat) | PipeName string "int option" | NullAddress

text \<open>
  The promise \<^verbatim>\<open>authenticationPromise\<close> is pending (\<open>None\<close>), fulfilled with the code
  (\<open>Some (Inr code)\<close>) or rejected (\<open>Some (Inl err)\<close>). The field \<open>deferred\<close> of the class
  holds the promise's own \<^verbatim>\<open>resolve\<close> and \<^verbatim>\<open>reject\<close>, set by the executor in the
  constructor, so they are the two functions below on the promise's state.
\<close>

record AuthSSOServer =
  baseUrl :: string
  oauthCallback :: string
  state :: string
  authenticationPromise :: "(error + string) option"
  listening :: bool
  server_address :: address

definition new_AuthSSOServer :: "string \<Rightarrow> AuthSSOServer" where
  "new_AuthSSOServer st =
     \<lparr> baseUrl = ''http://127.0.0.1'', oauthCallback = ''/'', state = st,
       authenticationPromise = None, listening = False, server_address = NullAddress \<rparr>"

text \<open>
  A JavaScript promise settles once: \<^verbatim>\<open>resolve\<close> and \<^verbatim>\<open>reject\<close> on a settled promise
  do nothing.
\<close>

definition resolve :: "AuthSSOServer \<Rightarrow> string \<Rightarrow> AuthSSOServer" where
  "resolve srv result =
     (case authenticationPromise srv of
        None \<Rightarrow> srv\<lparr>authenticationPromise := Some (Inr result)\<rparr>
      | Some settled \<Rightarrow> srv)"

definition reject :: "AuthSSOServer \<Rightarrow> error \<Rightarrow> AuthSSOServer" where
  "reject srv reason =
     (case authenticationPromise srv of
        None \<Rightarrow> srv\<lparr>authenticationPromise := Some (Inl reason)\<rparr>
      | Some settled \<Rightarrow> srv)"

definition waitForAuthorization :: "AuthSSOServer \<Rightarrow> (error + string) option" where
  "waitForAuthorization srv = authenticationPromise srv"

subsection \<open>Handling the redirect\<close>

text \<open>
  \<^verbatim>\<open>if (!code)\<close> and \<^verbatim>\<open>if (!state)\<close> test for a falsy value: \<^verbatim>\<open>null\<close> (the parameter
  is absent) and the empty string (the parameter is there with no value) both are. In
  \<^verbatim>\<open>handleAuthentication\<close> the two values are read with \<^verbatim>\<open>get(...)!\<close> after \<^verbatim>\<open>has\<close>
  held for both names, so both are there: the last case of its case distinction is never
  taken (lemma \<open>params_has_get\<close>).
\<close>

definition handleToken :: "AuthSSOServer \<Rightarrow> URLSearchParams \<Rightarrow> AuthSSOServer" where
  "handleToken srv params =
     (case params_get params ''code'' of
        None \<Rightarrow> reject srv MissingCodeError
      | Some code \<Rightarrow>
          if code = [] then reject srv MissingCodeError
          else
            (case params_get params ''state'' of
               None \<Rightarrow> reject srv MissingStateError
             | Some st \<Rightarrow>
                 if st = [] then reject srv MissingStateError
                 else if st \<noteq> state srv then reject srv InvalidStateError
                 else resolve srv code))"

definition handleAuthentication :: "AuthSSOServer \<Rightarrow> URLSearchParams \<Rightarrow> AuthSSOServer" where
  "handleAuthentication srv params =
     (if params_has params ''error'' \<and> params_has params ''error_description'' then
        (case (params_get params ''error'', params_get params ''error_description'') of
           (Some err, Some errorDescription) \<Rightarrow> reject srv (AuthError err errorDescription)
         | other \<Rightarrow> srv)
      else handleToken srv params)"

subsection \<open>The request listener\<close>

text \<open>
  A request as the listener reads it: the \<^verbatim>\<open>Origin\<close> header and \<^verbatim>\<open>req.url\<close>, which
  \<^verbatim>\<open>new URL(req.url, this.baseUrl)\<close> splits into the path and the query parameters.
  \<open>req_url = None\<close> is a falsy \<^verbatim>\<open>req.url\<close>. The response records the headers set, the
  status written by \<^verbatim>\<open>writeHead\<close> and the body passed to \<^verbatim>\<open>end\<close>; a response that was
  never ended has neither. Console and logger output and the socket list kept for
  \<^verbatim>\<open>close\<close> are left out: nothing reads them back.
\<close>

record URL =
  pathname :: string
  searchParams :: URLSearchParams

record IncomingMessage =
  req_origin :: "string option"
  req_url :: "URL option"

record ServerResponse =
  res_headers :: "(string \<times> string) list"
  res_status :: "nat option"
  res_body :: "string option"

definition new_ServerResponse :: ServerResponse where
  "new_ServerResponse = \<lparr> res_headers = [], res_status = None, res_body = None \<rparr>"

definition setHeader :: "ServerResponse \<Rightarrow> string \<Rightarrow> string \<Rightarrow> ServerResponse" where
  "setHeader res name v = res\<lparr>res_headers := res_headers res @ [(name, v)]\<rparr>"

definition writeHead :: "ServerResponse \<Rightarrow> nat \<Rightarrow> ServerResponse" where
  "writeHead res status = res\<lparr>res_status := Some status\<rparr>"

definition end_response :: "ServerResponse \<Rightarrow> string \<Rightarrow> ServerResponse" where
  "end_response res body = res\<lparr>res_body := Some body\<rparr>"

text \<open>\<^verbatim>\<open>/test/.test(origin)\<close>: the origin contains \<^verbatim>\<open>test\<close>.\<close>

fun regex_test :: "string \<Rightarrow> bool" where
  "regex_test [] = False"
| "regex_test (c # cs) = (take 4 (c # cs) = ''test'' \<or> regex_test cs)"

definition requestListener :: "AuthSSOServer \<Rightarrow> IncomingMessage \<Rightarrow> AuthSSOServer \<times> ServerResponse" where
  "requestListener srv req =
     (let origin = (case req_origin req of None \<Rightarrow> [] | Some orig \<Rightarrow> orig);
          res0 = new_ServerResponse;
          res1 = (if regex_test origin then setHeader res0 ''Access-Control-Allow-Origin'' ''*''
                  else res0);
          res2 = setHeader res1 ''Access-Control-Allow-Methods'' ''GET''
      in case req_url req of
           None \<Rightarrow> (srv, res2)
         | Some url \<Rightarrow>
             if pathname url = oauthCallback srv then
               (handleAuthentication srv (searchParams url),
                end_response (writeHead res2 200) ''Success!'')
             else (srv, res2))"

text \<open>
  Node calls the listener once per request, in the order of arrival, on the same server
  object: \<open>serve\<close> runs a sequence of requests and collects the responses.
\<close>

fun serve :: "AuthSSOServer \<Rightarrow> IncomingMessage list \<Rightarrow> AuthSSOServer \<times> ServerResponse list" where
  "serve srv [] = (srv, [])"
| "serve srv (req # reqs) =
     (case requestListener srv req of
        (srv1, res) \<Rightarrow> (case serve srv1 reqs of (srv2, ress) \<Rightarrow> (srv2, res # ress)))"

subsection \<open>Start, close and the redirect URI\<close>

text \<open>
  The first event the socket emits after \<^verbatim>\<open>listen(60821)\<close>; it settles the promise of
  \<^verbatim>\<open>start\<close>, and the handlers of later events find it settled. It is the event
  \<^verbatim>\<open>listening\<close> with the address \<^verbatim>\<open>server.address()\<close> then has, the event \<^verbatim>\<open>error\<close>
  (with the error as the template string prints it), or the event \<^verbatim>\<open>close\<close>. A
  \<^verbatim>\<open>close\<close> event can only be one still pending from an earlier \<^verbatim>\<open>close()\<close> of the same
  server: its handler rejects the promise, and \<^verbatim>\<open>listen(60821)\<close> goes on all the same.
  \<open>ListenClose addr\<close> carries the address the server has from that \<^verbatim>\<open>listen\<close>:
  \<^verbatim>\<open>null\<close> when it did not bind, and the server is listening otherwise.
\<close>

datatype listen_event = Listening address | ListenError string | ListenClose address

text \<open>\<^verbatim>\<open>!this.server.address()\<close>: \<^verbatim>\<open>null\<close> and the empty string are falsy.\<close>

fun falsy_address :: "address \<Rightarrow> bool" where
  "falsy_address NullAddress = True"
| "falsy_address (PipeName p n) = (p = [])"
| "falsy_address (AddressInfo p) = False"

definition start :: "listen_event \<Rightarrow> AuthSSOServer \<Rightarrow> (error + unit) \<times> AuthSSOServer" where
  "start ev srv =
     (if listening srv then (Inl (ToolkitError ''AuthSSOServer: Server already started''), srv)
      else
        (case ev of
           ListenClose addr \<Rightarrow>
             (Inl (ToolkitError ''AuthSSOServer: Server has closed''),
              srv\<lparr>listening := (addr \<noteq> NullAddress), server_address := addr\<rparr>)
         | ListenError e \<Rightarrow> (Inl (ToolkitError (''AuthSSOServer: Server failed: '' @ e)), srv)
         | Listening addr \<Rightarrow>
             (let srv1 = srv\<lparr>listening := True, server_address := addr\<rparr>
              in if falsy_address addr then (Inl MissingPortError, srv1) else (Inr (), srv1))))"

definition close :: "AuthSSOServer \<Rightarrow> (error + unit) \<times> AuthSSOServer" where
  "close srv =
     (if \<not> listening srv then (Inl (ToolkitError ''AuthSSOServer: Server not started''), srv)
      else (Inr (), srv\<lparr>listening := False, server_address := NullAddress\<rparr>))"

text \<open>
  Printing a number in a template string: an integer below \<open>10\<^sup>2\<^sup>1\<close> prints as its
  decimal digits, with a minus sign when negative, and \<^verbatim>\<open>NaN\<close> as \<^verbatim>\<open>NaN\<close>.
\<close>

definition digit_char :: "nat \<Rightarrow> char" where
  "digit_char d =
     (if d = 0 then CHR ''0'' else if d = 1 then CHR ''1'' else if d = 2 then CHR ''2''
      else if d = 3 then CHR ''3'' else if d = 4 then CHR ''4'' else if d = 5 then CHR ''5''
      else if d = 6 then CHR ''6'' else if d = 7 then CHR ''7'' else if d = 8 then CHR ''8''
      else CHR ''9'')"

fun string_of_nat :: "nat \<Rightarrow> string" where
  "string_of_nat n =
     (if n < 10 then [digit_char n] else string_of_nat (n div 10) @ [digit_char (n mod 10)])"

definition number_toString :: "int option \<Rightarrow> string" where
  "number_toString n =
     (case n of
        None \<Rightarrow> ''NaN''
      | Some i \<Rightarrow> if i < 0 then ''-'' @ string_of_nat (nat (- i)) else string_of_nat (nat i))"

definition getPort :: "AuthSSOServer \<Rightarrow> error + int option" where
  "getPort srv =
     (case server_address srv of
        AddressInfo p \<Rightarrow> Inr (Some (int p))
      | PipeName path n \<Rightarrow> Inr n
      | NullAddress \<Rightarrow> Inl MissingPortError)"

definition redirectUri :: "AuthSSOServer \<Rightarrow> error + string" where
  "redirectUri srv =
     (case getPort srv of
        Inl e \<Rightarrow> Inl e
      | Inr n \<Rightarrow> Inr (baseUrl srv @ '':'' @ number_toString n))"

section \<open>The data model (auth/sso/model.ts)\<close>

text \<open>
  A \<^verbatim>\<open>Date\<close> is its time value \<^verbatim>\<open>getTime()\<close>, in milliseconds since the epoch: an
  integer of magnitude at most \<open>8.64 * 10\<^sup>1\<^sup>5\<close>, below \<open>2\<^sup>5\<^sup>3\<close>, so the sums and
  comparisons of the source are exact on it. \<^verbatim>\<open>isExpired\<close> takes any object with an
  \<^verbatim>\<open>expiresAt\<close>: tokens and registrations extend the record \<open>expirable\<close>. An optional
  property is an \<open>option\<close>. An invalid \<^verbatim>\<open>Date\<close>, whose time value is \<^verbatim>\<open>NaN\<close>, is
  no instant and is left out.
\<close>

record expirable =
  expiresAt :: int

record SsoToken = expirable +
  tk_identity :: "string option"
  tk_accessToken :: string
  tk_tokenType :: "string option"
  tk_refreshToken :: "string option"

record ClientRegistration = expirable +
  rg_clientId :: string
  rg_clientSecret :: string
  rg_scopes :: "string list option"
  rg_issuerUrl :: "string option"

record SsoProfile =
  pf_region :: string
  pf_startUrl :: string
  pf_scopes :: "string list option"
  pf_identifier :: "string option"

definition builderIdStartUrl :: string where
  "builderIdStartUrl = ''https://view.awsapps.com/start''"

definition trustedDomainCancellation :: string where
  "trustedDomainCancellation = ''TrustedDomainCancellation''"

definition expirationBufferMs :: int where
  "expirationBufferMs = 60000"

definition isDeprecatedAuth :: "ClientRegistration \<Rightarrow> bool" where
  "isDeprecatedAuth registration = (rg_issuerUrl registration = None)"

section \<open>The collaborators\<close>

text \<open>
  What the token cache holds under a key, and what \<^verbatim>\<open>formatToken\<close> builds: the token,
  the registration it was created with (optional in a cached entry: \<^verbatim>\<open>getToken\<close> tests
  it), the region and the start URL.
\<close>

record SsoAccess =
  cr_token :: SsoToken
  cr_registration :: "ClientRegistration option"
  cr_region :: string
  cr_startUrl :: string

type_synonym RegistrationKey = "string \<times> string list option"

text \<open>
  The request of \<^verbatim>\<open>oidc.createToken\<close>. The refresh builds it as
  \<^verbatim>\<open>{ ...clientInfo, ...token, grantType }\<close>: \<open>ct_token\<close> is the token whose properties are
  spread into it. The authorization-code exchange gives the redirect URI, the code
  verifier and the code.
\<close>

record CreateTokenRequest =
  ct_clientId :: string
  ct_clientSecret :: string
  ct_grantType :: string
  ct_token :: "SsoToken option"
  ct_redirectUri :: "string option"
  ct_codeVerifier :: "string option"
  ct_code :: "string option"

record AuthorizeRequest =
  az_responseType :: string
  az_clientId :: string
  az_redirectUri :: string
  az_scopes :: "string list"
  az_state :: string
  az_codeChallenge :: string
  az_codeChallengeMethod :: string

record AwsRefreshCredentials =
  m_result :: string
  m_reason :: "string option"
  m_requestId :: "string option"
  m_sessionDuration :: "int option"
  m_credentialType :: string
  m_credentialSourceId :: string

text \<open>
  Every call that leaves the provider is recorded, in order: the cache calls with their
  key (and the reason of a clear), the calls of the OIDC client, the browser, the redirect
  listener, and the telemetry emitted.
\<close>

datatype event =
    TokenLoad string
  | TokenSave string SsoAccess
  | TokenClear string string
  | RegistrationClear RegistrationKey string
  | OidcCreateToken CreateTokenRequest
  | OidcAuthorize AuthorizeRequest
  | OpenExternal string
  | ServerStart
  | ServerClose
  | Emit_refreshCredentials AwsRefreshCredentials
  | Emit_loginWithBrowser string

text \<open>
  The state the provider works on: the two caches, the memento's map of session creation
  dates, and the record of calls.
\<close>

record world =
  token_cache :: "string \<rightharpoonup> SsoAccess"
  registration_cache :: "RegistrationKey \<rightharpoonup> ClientRegistration"
  sessionCreationDates :: "string \<rightharpoonup> int"
  trace :: "event list"

text \<open>
  What the collaborators answer during one call of the provider. They are not among the
  sources, so they are parameters: the two clocks (\<^verbatim>\<open>globals.clock.Date.now()\<close> and
  \<^verbatim>\<open>Date.now()\<close>), whether a cache call fails and with what, the OIDC client's answers,
  the answer of \<^verbatim>\<open>vscode.env.openExternal\<close>, the classification of errors by
  \<^verbatim>\<open>shared/errors\<close> (\<^verbatim>\<open>isNetworkError\<close>, \<^verbatim>\<open>isClientFault\<close>, \<^verbatim>\<open>getTelemetryResult\<close>,
  \<^verbatim>\<open>getTelemetryReason\<close>, \<^verbatim>\<open>getRequestId\<close>), the random values of \<^verbatim>\<open>crypto\<close> and its
  hash, what the socket reports on \<^verbatim>\<open>listen\<close>, and the requests that reach the redirect
  listener while it is open.
\<close>

record env =
  clock_now :: int
  date_now :: int
  token_load_error :: "error option"
  token_save_error :: "error option"
  token_clear_error :: "error option"
  registration_clear_error :: "error option"
  oidc_createToken :: "CreateTokenRequest \<Rightarrow> error + SsoToken"
  oidc_authorize :: "AuthorizeRequest \<Rightarrow> error + string"
  openExternal :: "string \<Rightarrow> error + bool"
  isNetworkError :: "error \<Rightarrow> bool"
  isClientFault :: "error \<Rightarrow> bool"
  getTelemetryResult :: "error \<Rightarrow> string"
  getTelemetryReason :: "error \<Rightarrow> string option"
  getRequestId :: "error \<Rightarrow> string option"
  randomUUID :: string
  randomBytes_base64url :: string
  sha256_base64url :: "string \<Rightarrow> string"
  listen_result :: listen_event
  redirect_requests :: "IncomingMessage list"

definition emit :: "event \<Rightarrow> world \<Rightarrow> world" where
  "emit ev w = w\<lparr>trace := trace w @ [ev]\<rparr>"

text \<open>
  Modelled from the spec: the token and registration caches (\<^verbatim>\<open>auth/sso/cache.ts\<close> is not
  among the sources). Each is a key-value store with \<^verbatim>\<open>load\<close>, \<^verbatim>\<open>save\<close> and
  \<^verbatim>\<open>clear\<close>, atomic for the provider: a call either fails, leaving the store as it was,
  or does its work. \<^verbatim>\<open>load\<close> of a key with no entry gives \<^verbatim>\<open>undefined\<close>.
\<close>

definition cache_token_load :: "env \<Rightarrow> string \<Rightarrow> world \<Rightarrow> (error + SsoAccess option) \<times> world" where
  "cache_token_load env key w =
     (let w1 = emit (TokenLoad key) w
      in case token_load_error env of
           Some e \<Rightarrow> (Inl e, w1)
         | None \<Rightarrow> (Inr (token_cache w1 key), w1))"

definition cache_token_save :: "env \<Rightarrow> string \<Rightarrow> SsoAccess \<Rightarrow> world \<Rightarrow> (error + unit) \<times> world" where
  "cache_token_save env key access w =
     (let w1 = emit (TokenSave key access) w
      in case token_save_error env of
           Some e \<Rightarrow> (Inl e, w1)
         | None \<Rightarrow> (Inr (), w1\<lparr>token_cache := (token_cache w1)(key \<mapsto> access)\<rparr>))"

definition cache_token_clear :: "env \<Rightarrow> string \<Rightarrow> string \<Rightarrow> world \<Rightarrow> (error + unit) \<times> world" where
  "cache_token_clear env key reason w =
     (let w1 = emit (TokenClear key reason) w
      in case token_clear_error env of
           Some e \<Rightarrow> (Inl e, w1)
         | None \<Rightarrow> (Inr (), w1\<lparr>token_cache := (token_cache w1)(key := None)\<rparr>))"

definition cache_registration_clear ::
  "env \<Rightarrow> RegistrationKey \<Rightarrow> string \<Rightarrow> world \<Rightarrow> (error + unit) \<times> world" where
  "cache_registration_clear env key reason w =
     (let w1 = emit (RegistrationClear key reason) w
      in case registration_clear_error env of
           Some e \<Rightarrow> (Inl e, w1)
         | None \<Rightarrow> (Inr (), w1\<lparr>registration_cache := (registration_cache w1)(key := None)\<rparr>))"

text \<open>
  Modelled from the spec: \<^verbatim>\<open>hasProps\<close> (\<^verbatim>\<open>shared/utilities/tsUtils\<close> is not among the
  sources), asked whether the token has the property \<^verbatim>\<open>refreshToken\<close>: a refresh token
  exists.
\<close>

definition hasProps_refreshToken :: "SsoToken \<Rightarrow> bool" where
  "hasProps_refreshToken token = (tk_refreshToken token \<noteq> None)"

section \<open>Expiration (auth/sso/model.ts)\<close>

definition isExpired :: "env \<Rightarrow> 'a expirable_scheme \<Rightarrow> bool" where
  "isExpired env expirable = (clock_now env + expirationBufferMs \<ge> expiresAt expirable)"

section \<open>The access token provider (auth/sso/ssoAccessTokenProvider.ts)\<close>

definition clientRegistrationType :: string where
  "clientRegistrationType = ''public''"

definition authorizationGrantType :: string where
  "authorizationGrantType = ''authorization_code''"

definition refreshGrantType :: string where
  "refreshGrantType = ''refresh_token''"

definition tokenCacheKey :: "SsoProfile \<Rightarrow> string" where
  "tokenCacheKey profile =
     (case pf_identifier profile of Some ident \<Rightarrow> ident | None \<Rightarrow> pf_startUrl profile)"

definition registrationCacheKey :: "SsoProfile \<Rightarrow> RegistrationKey" where
  "registrationCacheKey profile = (pf_region profile, pf_scopes profile)"

definition formatToken :: "SsoProfile \<Rightarrow> SsoToken \<Rightarrow> ClientRegistration \<Rightarrow> SsoAccess" where
  "formatToken profile token registration =
     \<lparr> cr_token = token, cr_registration = Some registration,
       cr_region = pf_region profile, cr_startUrl = pf_startUrl profile \<rparr>"

text \<open>
  \<^verbatim>\<open>Promise.allSettled\<close> over the two clear calls: both are called, in the order of the
  array, before either is awaited; the promise it returns is fulfilled whatever the two
  outcomes are, and \<^verbatim>\<open>invalidate\<close> drops them. The two calls work on different stores,
  so the order in which they complete does not show.
\<close>

definition invalidate_reason :: string where
  "invalidate_reason = ''SsoAccessTokenProvider.invalidate()''"

definition invalidate_settled :: "env \<Rightarrow> SsoProfile \<Rightarrow> world \<Rightarrow> ((error + unit) \<times> (error + unit)) \<times> world" where
  "invalidate_settled env profile w =
     (case cache_token_clear env (tokenCacheKey profile) invalidate_reason w of
        (r1, w1) \<Rightarrow>
          (case cache_registration_clear env (registrationCacheKey profile) invalidate_reason w1 of
             (r2, w2) \<Rightarrow> ((r1, r2), w2)))"

definition invalidate :: "env \<Rightarrow> SsoProfile \<Rightarrow> world \<Rightarrow> (error + unit) \<times> world" where
  "invalidate env profile w =
     (case invalidate_settled env profile w of (settled, w2) \<Rightarrow> (Inr (), w2))"

definition getSessionCreationDate :: "world \<Rightarrow> string \<Rightarrow> int option" where
  "getSessionCreationDate w ident = sessionCreationDates w ident"

definition getSessionDuration :: "env \<Rightarrow> world \<Rightarrow> string \<Rightarrow> int option" where
  "getSessionDuration env w ident =
     (case getSessionCreationDate w ident of
        Some creationDate \<Rightarrow> Some (date_now env - creationDate)
      | None \<Rightarrow> None)"

text \<open>The \<^verbatim>\<open>try\<close> block of \<^verbatim>\<open>refreshToken\<close>.\<close>

definition refreshToken_try ::
  "env \<Rightarrow> SsoProfile \<Rightarrow> SsoToken \<Rightarrow> ClientRegistration \<Rightarrow> world \<Rightarrow> (error + SsoAccess) \<times> world" where
  "refreshToken_try env profile token registration w =
     (let request =
            \<lparr> ct_clientId = rg_clientId registration, ct_clientSecret = rg_clientSecret registration,
              ct_grantType = refreshGrantType, ct_token = Some token, ct_redirectUri = None,
              ct_codeVerifier = None, ct_code = None \<rparr>;
          w1 = emit (OidcCreateToken request) w
      in case oidc_createToken env request of
           Inl err \<Rightarrow> (Inl err, w1)
         | Inr response \<Rightarrow>
             (let refreshed = formatToken profile response registration
              in case cache_token_save env (tokenCacheKey profile) refreshed w1 of
                   (Inl err, w2) \<Rightarrow> (Inl err, w2)
                 | (Inr u, w2) \<Rightarrow> (Inr refreshed, w2)))"

text \<open>The \<^verbatim>\<open>catch\<close> block of \<^verbatim>\<open>refreshToken\<close>, entered with the error caught.\<close>

definition refreshToken_catch :: "env \<Rightarrow> SsoProfile \<Rightarrow> error \<Rightarrow> world \<Rightarrow> (error + SsoAccess) \<times> world" where
  "refreshToken_catch env profile err w =
     (if \<not> isNetworkError env err then
        (let w1 = emit (Emit_refreshCredentials
                    \<lparr> m_result = getTelemetryResult env err,
                      m_reason = getTelemetryReason env err,
                      m_requestId = getRequestId env err,
                      m_sessionDuration = getSessionDuration env w (tokenCacheKey profile),
                      m_credentialType = ''bearerToken'',
                      m_credentialSourceId =
                        (if pf_startUrl profile = builderIdStartUrl then ''awsId''
                         else ''iamIdentityCenter'') \<rparr>) w
         in if is_SSOOIDCServiceException err \<and> isClientFault env err then
              (case cache_token_clear env (tokenCacheKey profile)
                      (''client fault: SSOOIDCServiceException: '' @ svc_message err) w1 of
                 (Inl clearErr, w2) \<Rightarrow> (Inl clearErr, w2)
               | (Inr u, w2) \<Rightarrow> (Inl err, w2))
            else (Inl err, w1))
      else (Inl err, w))"

definition refreshToken ::
  "env \<Rightarrow> SsoProfile \<Rightarrow> SsoToken \<Rightarrow> ClientRegistration \<Rightarrow> world \<Rightarrow> (error + SsoAccess) \<times> world" where
  "refreshToken env profile token registration w =
     (case refreshToken_try env profile token registration w of
        (Inr refreshed, w1) \<Rightarrow> (Inr refreshed, w1)
      | (Inl err, w1) \<Rightarrow> refreshToken_catch env profile err w1)"

text \<open>
  \<^verbatim>\<open>getToken\<close>. The logger call between the load and the first test writes the
  registration's id and expiry to the log and is left out, as every logger call is.
  \<^verbatim>\<open>return data?.token\<close> returns \<^verbatim>\<open>undefined\<close> (\<open>None\<close>) when there is no entry; the
  last branch falls off the end of the function after \<^verbatim>\<open>invalidate\<close> and returns
  \<^verbatim>\<open>undefined\<close> as well.
\<close>

definition getToken :: "env \<Rightarrow> SsoProfile \<Rightarrow> world \<Rightarrow> (error + SsoToken option) \<times> world" where
  "getToken env profile w =
     (case cache_token_load env (tokenCacheKey profile) w of
        (Inl err, w1) \<Rightarrow> (Inl err, w1)
      | (Inr None, w1) \<Rightarrow> (Inr None, w1)
      | (Inr (Some access), w1) \<Rightarrow>
          if \<not> isExpired env (cr_token access) then (Inr (Some (cr_token access)), w1)
          else
            (case cr_registration access of
               Some registration \<Rightarrow>
                 if \<not> isExpired env registration \<and> hasProps_refreshToken (cr_token access) then
                   (case refreshToken env profile (cr_token access) registration w1 of
                      (Inl err, w2) \<Rightarrow> (Inl err, w2)
                    | (Inr refreshed, w2) \<Rightarrow> (Inr (Some (cr_token refreshed)), w2))
                 else
                   (case invalidate env profile w1 of
                      (Inl err, w2) \<Rightarrow> (Inl err, w2)
                    | (Inr u, w2) \<Rightarrow> (Inr None, w2))
             | None \<Rightarrow>
                 (case invalidate env profile w1 of
                    (Inl err, w2) \<Rightarrow> (Inl err, w2)
                  | (Inr u, w2) \<Rightarrow> (Inr None, w2))))"

section \<open>Opening the browser (auth/sso/model.ts)\<close>

definition openSsoUrl :: "env \<Rightarrow> string \<Rightarrow> world \<Rightarrow> (error + bool) \<times> world" where
  "openSsoUrl env location w =
     (let w1 = emit (OpenExternal location) w
      in case openExternal env location of
           Inl err \<Rightarrow> (Inl err, w1)
         | Inr didOpenUrl \<Rightarrow>
             if \<not> didOpenUrl then
               (Inl (Toolkit ToolkitError_class
                       ''User clicked 'Copy' or 'Cancel' during the Trusted Domain popup''
                       (Some trustedDomainCancellation) (Some trustedDomainCancellation) True), w1)
             else (Inr didOpenUrl, w1))"

text \<open>
  Modelled from the spec: \<^verbatim>\<open>telemetry.aws_loginWithBrowser.run\<close> (\<^verbatim>\<open>shared/telemetry\<close> is
  not among the sources), as the tests of \<^verbatim>\<open>openSsoPortalLink\<close> have it: it runs the
  function, emits the metric with the result \<^verbatim>\<open>Succeeded\<close> when the function returns and
  \<^verbatim>\<open>Failed\<close> when it throws, and returns or rethrows what the function did.
\<close>

definition telemetry_run_loginWithBrowser ::
  "(world \<Rightarrow> (error + 'a) \<times> world) \<Rightarrow> world \<Rightarrow> (error + 'a) \<times> world" where
  "telemetry_run_loginWithBrowser f w =
     (case f w of
        (Inl err, w1) \<Rightarrow> (Inl err, emit (Emit_loginWithBrowser ''Failed'') w1)
      | (Inr v, w1) \<Rightarrow> (Inr v, emit (Emit_loginWithBrowser ''Succeeded'') w1))"

definition openSsoPortalLink :: "env \<Rightarrow> string \<Rightarrow> world \<Rightarrow> (error + bool) \<times> world" where
  "openSsoPortalLink env location w = telemetry_run_loginWithBrowser (openSsoUrl env location) w"

section \<open>The interactive flow (auth/sso/ssoAccessTokenProvider.ts)\<close>

text \<open>
  The \<^verbatim>\<open>try\<close> block of \<^verbatim>\<open>authorize\<close>. Its result is \<open>None\<close> when the promise of the
  redirect listener never settles: \<^verbatim>\<open>await authServer.waitForAuthorization()\<close> then
  never returns. The requests of \<open>redirect_requests\<close> reach the listener between
  \<^verbatim>\<open>start\<close> and the end of the wait.
\<close>

definition authorize_try ::
  "env \<Rightarrow> SsoProfile \<Rightarrow> ClientRegistration \<Rightarrow> string \<Rightarrow> AuthSSOServer \<Rightarrow> world \<Rightarrow>
     (error + SsoAccess) option \<times> AuthSSOServer \<times> world" where
  "authorize_try env profile registration st authServer w =
     (let w1 = emit ServerStart w
      in case start (listen_result env) authServer of
           (Inl err, srv1) \<Rightarrow> (Some (Inl err), srv1, w1)
         | (Inr u, srv1) \<Rightarrow>
             (case redirectUri srv1 of
                Inl err \<Rightarrow> (Some (Inl err), srv1, w1)
              | Inr uri \<Rightarrow>
                  (let codeVerifier = randomBytes_base64url env;
                       codeChallenge = sha256_base64url env codeVerifier;
                       request =
                         \<lparr> az_responseType = ''code'', az_clientId = rg_clientId registration,
                           az_redirectUri = uri,
                           az_scopes = (case pf_scopes profile of Some scs \<Rightarrow> scs | None \<Rightarrow> []),
                           az_state = st, az_codeChallenge = codeChallenge,
                           az_codeChallengeMethod = ''S256'' \<rparr>;
                       w2 = emit (OidcAuthorize request) w1
                   in case oidc_authorize env request of
                        Inl err \<Rightarrow> (Some (Inl err), srv1, w2)
                      | Inr location \<Rightarrow>
                          (case openSsoPortalLink env location w2 of
                             (Inl err, w3) \<Rightarrow> (Some (Inl err), srv1, w3)
                           | (Inr opened, w3) \<Rightarrow>
                               if \<not> opened then (Some (Inl (CancellationError ''user'')), srv1, w3)
                               else
                                 (let srv2 = fst (serve srv1 (redirect_requests env))
                                  in case waitForAuthorization srv2 of
                                       None \<Rightarrow> (None, srv2, w3)
                                     | Some (Inl err) \<Rightarrow> (Some (Inl err), srv2, w3)
                                     | Some (Inr authorizationResult) \<Rightarrow>
                                         (let tokenRequest =
                                                \<lparr> ct_clientId = rg_clientId registration,
                                                  ct_clientSecret = rg_clientSecret registration,
                                                  ct_grantType = authorizationGrantType,
                                                  ct_token = None, ct_redirectUri = Some uri,
                                                  ct_codeVerifier = Some codeVerifier,
                                                  ct_code = Some authorizationResult \<rparr>;
                                              w4 = emit (OidcCreateToken tokenRequest) w3
                                          in case oidc_createToken env tokenRequest of
                                               Inl err \<Rightarrow> (Some (Inl err), srv2, w4)
                                             | Inr token \<Rightarrow>
                                                 (Some (Inr (formatToken profile token registration)),
                                                  srv2, w4)))))))"

text \<open>
  \<^verbatim>\<open>authorize\<close>: the \<^verbatim>\<open>catch\<close> block prints the error and throws it again; the
  \<^verbatim>\<open>finally\<close> block awaits \<^verbatim>\<open>authServer.close()\<close>, and an error of \<^verbatim>\<open>close\<close> takes the
  place of the result of the \<^verbatim>\<open>try\<close> block.
\<close>

definition authorize ::
  "env \<Rightarrow> SsoProfile \<Rightarrow> ClientRegistration \<Rightarrow> world \<Rightarrow> (error + SsoAccess) option \<times> world" where
  "authorize env profile registration w =
     (let st = randomUUID env;
          authServer = new_AuthSSOServer st
      in case authorize_try env profile registration st authServer w of
           (None, srv, w1) \<Rightarrow> (None, w1)
         | (Some r, srv, w1) \<Rightarrow>
             (case close srv of
                (Inl closeErr, srv1) \<Rightarrow> (Some (Inl closeErr), emit ServerClose w1)
              | (Inr u, srv1) \<Rightarrow> (Some r, emit ServerClose w1)))"

text \<open>
  An event of the interactive flow: the redirect listener is started or closed, the
  authorization URL is asked of the OIDC client, or the browser is opened.
\<close>

fun interactive :: "event \<Rightarrow> bool" where
  "interactive ServerStart = True"
| "interactive ServerClose = True"
| "interactive (OidcAuthorize request) = True"
| "interactive (OpenExternal location) = True"
| "interactive (Emit_loginWithBrowser r) = True"
| "interactive ev = False"

section \<open>Definitions for the statements\<close>

text \<open>
  A request to the registered path: its path equals \<^verbatim>\<open>oauthCallback\<close>.
\<close>

definition to_callback :: "AuthSSOServer \<Rightarrow> IncomingMessage \<Rightarrow> bool" where
  "to_callback srv req = (map_option pathname (req_url req) = Some (oauthCallback srv))"

text \<open>
  The decision order of the redirect listener in the specification's words, where a
  parameter counts as soon as it is present: the provider's error when both \<^verbatim>\<open>error\<close>
  and \<^verbatim>\<open>error_description\<close> are present, else \<^verbatim>\<open>MissingCodeError\<close> when \<^verbatim>\<open>code\<close> is
  absent, else \<^verbatim>\<open>MissingStateError\<close> when \<^verbatim>\<open>state\<close> is absent, else
  \<^verbatim>\<open>InvalidStateError\<close> when \<^verbatim>\<open>state\<close> differs from the expected one, else the code.
\<close>

definition spec_redirect_outcome :: "string \<Rightarrow> URLSearchParams \<Rightarrow> error + string" where
  "spec_redirect_outcome expected params =
     (case (params_get params ''error'', params_get params ''error_description'') of
        (Some err, Some errorDescription) \<Rightarrow> Inl (AuthError err errorDescription)
      | other \<Rightarrow>
          (case params_get params ''code'' of
             None \<Rightarrow> Inl MissingCodeError
           | Some code \<Rightarrow>
               (case params_get params ''state'' of
                  None \<Rightarrow> Inl MissingStateError
                | Some st \<Rightarrow> if st \<noteq> expected then Inl InvalidStateError else Inr code)))"

text \<open>
  A cached entry can be refreshed when its registration is present and unexpired and its
  token has a refresh token.
\<close>

definition refreshable :: "env \<Rightarrow> SsoAccess \<Rightarrow> bool" where
  "refreshable env access =
     (case cr_registration access of
        None \<Rightarrow> False
      | Some registration \<Rightarrow> \<not> isExpired env registration \<and> tk_refreshToken (cr_token access) \<noteq> None)"

text \<open>
  The request a refresh sends to the OIDC client, the metric a failed refresh emits, and
  the request \<^verbatim>\<open>authorize\<close> sends for a listener bound to the port \<open>p\<close>, written out
  field by field.
\<close>

definition refresh_request :: "SsoToken \<Rightarrow> ClientRegistration \<Rightarrow> CreateTokenRequest" where
  "refresh_request token registration =
     \<lparr> ct_clientId = rg_clientId registration, ct_clientSecret = rg_clientSecret registration,
       ct_grantType = ''refresh_token'', ct_token = Some token, ct_redirectUri = None,
       ct_codeVerifier = None, ct_code = None \<rparr>"

definition refresh_metric :: "env \<Rightarrow> SsoProfile \<Rightarrow> world \<Rightarrow> error \<Rightarrow> AwsRefreshCredentials" where
  "refresh_metric env profile w err =
     \<lparr> m_result = getTelemetryResult env err, m_reason = getTelemetryReason env err,
       m_requestId = getRequestId env err,
       m_sessionDuration =
         (case sessionCreationDates w (tokenCacheKey profile) of
            None \<Rightarrow> None
          | Some creationDate \<Rightarrow> Some (date_now env - creationDate)),
       m_credentialType = ''bearerToken'',
       m_credentialSourceId =
         (if pf_startUrl profile = ''https://view.awsapps.com/start'' then ''awsId''
          else ''iamIdentityCenter'') \<rparr>"

definition authorize_request :: "env \<Rightarrow> SsoProfile \<Rightarrow> ClientRegistration \<Rightarrow> nat \<Rightarrow> AuthorizeRequest" where
  "authorize_request env profile registration p =
     \<lparr> az_responseType = ''code'', az_clientId = rg_clientId registration,
       az_redirectUri = ''http://127.0.0.1:'' @ string_of_nat p,
       az_scopes = (case pf_scopes profile of Some scs \<Rightarrow> scs | None \<Rightarrow> []),
       az_state = randomUUID env,
       az_codeChallenge = sha256_base64url env (randomBytes_base64url env),
       az_codeChallengeMethod = ''S256'' \<rparr>"

text \<open>
  The error \<^verbatim>\<open>openSsoPortalLink\<close> throws when the browser was not opened.
\<close>

definition declined_error :: error where
  "declined_error =
     Toolkit ToolkitError_class ''User clicked 'Copy' or 'Cancel' during the Trusted Domain popup''
       (Some ''TrustedDomainCancellation'') (Some ''TrustedDomainCancellation'') True"

text \<open>
  A telemetry event.
\<close>

fun is_telemetry :: "event \<Rightarrow> bool" where
  "is_telemetry (Emit_refreshCredentials m) = True"
| "is_telemetry (Emit_loginWithBrowser r) = True"
| "is_telemetry ev = False"

subsection \<open>Concrete inputs\<close>

text \<open>
  A request to the path \<^verbatim>\<open>/\<close> with the given query parameters and no \<^verbatim>\<open>Origin\<close>
  header.
\<close>

definition redirect_request :: "URLSearchParams \<Rightarrow> IncomingMessage" where
  "redirect_request params =
     \<lparr> req_origin = None, req_url = Some \<lparr> pathname = ''/'', searchParams = params \<rparr> \<rparr>"

text \<open>
  A listener constructed with the state \<^verbatim>\<open>abc\<close> receives a request to another path,
  then the redirect \<^verbatim>\<open>/?code=XYZ&state=abc\<close>, then a redirect with another state.
\<close>

definition example_requests :: "IncomingMessage list" where
  "example_requests =
     [\<lparr> req_origin = None, req_url = Some \<lparr> pathname = ''/favicon.ico'', searchParams = [] \<rparr> \<rparr>,
      \<lparr> req_origin = None,
        req_url = Some \<lparr> pathname = ''/'', searchParams = [(''code'', ''XYZ''), (''state'', ''abc'')] \<rparr> \<rparr>,
      \<lparr> req_origin = Some ''http://test.example'',
        req_url = Some \<lparr> pathname = ''/'', searchParams = [(''state'', ''other'')] \<rparr> \<rparr>]"

text \<open>
  An identity-center profile with no identifier, a registration, a token and a cache
  entry built from them, and a state whose token cache holds the given entry (or none)
  under the profile's start URL. The session of the profile was created at \<open>400000\<close>.
\<close>

definition example_profile :: SsoProfile where
  "example_profile =
     \<lparr> pf_region = ''us-east-1'', pf_startUrl = ''https://d-0123456789.awsapps.com/start'',
       pf_scopes = Some [''sso:account:access''], pf_identifier = None \<rparr>"

definition example_registration :: "int \<Rightarrow> ClientRegistration" where
  "example_registration expires =
     \<lparr> expiresAt = expires, rg_clientId = ''client-id'', rg_clientSecret = ''client-secret'',
       rg_scopes = Some [''sso:account:access''],
       rg_issuerUrl = Some ''https://d-0123456789.awsapps.com/start'' \<rparr>"

definition example_token :: "string \<Rightarrow> int \<Rightarrow> string option \<Rightarrow> SsoToken" where
  "example_token access expires refresh =
     \<lparr> expiresAt = expires, tk_identity = None, tk_accessToken = access,
       tk_tokenType = Some ''Bearer'', tk_refreshToken = refresh \<rparr>"

definition example_access :: "SsoToken \<Rightarrow> ClientRegistration option \<Rightarrow> SsoAccess" where
  "example_access token registration =
     \<lparr> cr_token = token, cr_registration = registration, cr_region = ''us-east-1'',
       cr_startUrl = ''https://d-0123456789.awsapps.com/start'' \<rparr>"

definition example_world :: "SsoAccess option \<Rightarrow> world" where
  "example_world cached =
     \<lparr> token_cache = (\<lambda>key. if key = ''https://d-0123456789.awsapps.com/start'' then cached else None),
       registration_cache =
         (\<lambda>key. if key = (''us-east-1'', Some [''sso:account:access''])
                 then Some (example_registration 9000000) else None),
       sessionCreationDates =
         (\<lambda>key. if key = ''https://d-0123456789.awsapps.com/start'' then Some 400000 else None),
       trace = [] \<rparr>"

text \<open>
  Collaborators: the clock stands at \<open>1000000\<close>, loading and saving succeed, the two
  clear calls fail as given, the OIDC client answers \<^verbatim>\<open>createToken\<close> as given, and the
  browser opens or not as given. \<^verbatim>\<open>getaddrinfo ENOTFOUND\<close> is the network error,
  \<^verbatim>\<open>InvalidGrantException\<close> the client fault. The listener is bound to the port
  \<open>60821\<close>.
\<close>

definition example_env :: "error option \<Rightarrow> error option \<Rightarrow> error + SsoToken \<Rightarrow> bool \<Rightarrow> env" where
  "example_env tokenClear registrationClear answer opened =
     \<lparr> clock_now = 1000000, date_now = 1000500,
       token_load_error = None, token_save_error = None,
       token_clear_error = tokenClear, registration_clear_error = registrationClear,
       oidc_createToken = (\<lambda>request. answer),
       oidc_authorize = (\<lambda>request. Inr ''https://oidc.us-east-1.amazonaws.com/authorize''),
       openExternal = (\<lambda>location. Inr opened),
       isNetworkError = (\<lambda>err. err = OtherError ''Error'' ''getaddrinfo ENOTFOUND''),
       isClientFault = (\<lambda>err. err = SSOOIDCServiceException ''InvalidGrantException'' ''invalid grant''),
       getTelemetryResult = (\<lambda>err. ''Failed''),
       getTelemetryReason = (\<lambda>err. None),
       getRequestId = (\<lambda>err. None),
       randomUUID = ''7f8c1e0a'', randomBytes_base64url = ''verifier'',
       sha256_base64url = (\<lambda>verifier. ''challenge''),
       listen_result = Listening (AddressInfo 60821),
       redirect_requests = [] \<rparr>"

text \<open>
  Failures of the collaborators, an expired token with a refresh token, the token a
  refresh returns, and a state whose cache holds the expired token with an unexpired
  registration.
\<close>

definition network_error :: error where
  "network_error = OtherError ''Error'' ''getaddrinfo ENOTFOUND''"

definition server_fault :: error where
  "server_fault = SSOOIDCServiceException ''InternalServerException'' ''internal error''"

definition client_fault :: error where
  "client_fault = SSOOIDCServiceException ''InvalidGrantException'' ''invalid grant''"

definition disk_error :: error where
  "disk_error = OtherError ''Error'' ''EACCES''"

definition old_token :: SsoToken where
  "old_token = example_token ''old'' 1000000 (Some ''refresh'')"

definition new_token :: SsoToken where
  "new_token = example_token ''new'' 30000000 (Some ''refresh2'')"

definition cached_world :: world where
  "cached_world = example_world (Some (example_access old_token (Some (example_registration 9000000))))"

section \<open>The redirect listener: lemmas\<close>

declare string_of_nat.simps [simp del]

lemmas error_defs = ToolkitError_def MissingPortError_def MissingCodeError_def MissingStateError_def
  InvalidStateError_def AuthError_def

lemmas server_defs = new_AuthSSOServer_def handleAuthentication_def handleToken_def resolve_def
  reject_def waitForAuthorization_def

lemmas listener_defs = requestListener_def new_ServerResponse_def setHeader_def writeHead_def
  end_response_def to_callback_def

lemma params_has_get: "params_has ps name \<longleftrightarrow> params_get ps name \<noteq> None"
  by (induction ps) auto

lemma resolve_settled [simp]:
  "authenticationPromise srv = Some out \<Longrightarrow> resolve srv v = srv"
  by (simp add: resolve_def)

lemma reject_settled [simp]:
  "authenticationPromise srv = Some out \<Longrightarrow> reject srv e = srv"
  by (simp add: reject_def)

lemma resolve_pending [simp]:
  "authenticationPromise srv = None \<Longrightarrow> authenticationPromise (resolve srv v) = Some (Inr v)"
  by (simp add: resolve_def)

lemma reject_pending [simp]:
  "authenticationPromise srv = None \<Longrightarrow> authenticationPromise (reject srv e) = Some (Inl e)"
  by (simp add: reject_def)

lemma handleToken_settled:
  "authenticationPromise srv = Some out \<Longrightarrow> handleToken srv params = srv"
  by (simp add: handleToken_def split: option.splits)

lemma handleAuthentication_settled:
  "authenticationPromise srv = Some out \<Longrightarrow> handleAuthentication srv params = srv"
  by (simp add: handleAuthentication_def handleToken_settled split: option.splits)

lemma handleToken_settles:
  "authenticationPromise srv = None \<Longrightarrow> \<exists>out. authenticationPromise (handleToken srv params) = Some out"
  by (simp add: handleToken_def split: option.splits)

lemma handleAuthentication_settles:
  "authenticationPromise srv = None \<Longrightarrow>
   \<exists>out. authenticationPromise (handleAuthentication srv params) = Some out"
  by (cases "params_get params ''error''"; cases "params_get params ''error_description''")
     (simp_all add: handleAuthentication_def handleToken_settles params_has_get)

lemma handleAuthentication_handleToken:
  "\<not> (params_has params ''error'' \<and> params_has params ''error_description'') \<Longrightarrow>
   handleAuthentication srv params = handleToken srv params"
  by (auto simp add: handleAuthentication_def)

lemma resolve_fields [simp]:
  "state (resolve srv v) = state srv" "oauthCallback (resolve srv v) = oauthCallback srv"
  "baseUrl (resolve srv v) = baseUrl srv" "listening (resolve srv v) = listening srv"
  "server_address (resolve srv v) = server_address srv"
  by (simp_all add: resolve_def split: option.splits)

lemma reject_fields [simp]:
  "state (reject srv e) = state srv" "oauthCallback (reject srv e) = oauthCallback srv"
  "baseUrl (reject srv e) = baseUrl srv" "listening (reject srv e) = listening srv"
  "server_address (reject srv e) = server_address srv"
  by (simp_all add: reject_def split: option.splits)

lemma handleAuthentication_oauthCallback [simp]:
  "oauthCallback (handleAuthentication srv params) = oauthCallback srv"
  by (simp add: handleAuthentication_def handleToken_def split: option.splits)

lemma requestListener_oauthCallback [simp]:
  "oauthCallback (fst (requestListener srv req)) = oauthCallback srv"
  by (simp add: requestListener_def Let_def split: option.splits)

lemma requestListener_settled:
  "authenticationPromise srv = Some out \<Longrightarrow>
   authenticationPromise (fst (requestListener srv req)) = Some out"
  by (simp add: requestListener_def Let_def handleAuthentication_settled split: option.splits)

lemma requestListener_other_path:
  "\<not> to_callback srv req \<Longrightarrow> fst (requestListener srv req) = srv"
  by (cases "req_url req") (simp_all add: requestListener_def to_callback_def Let_def)

lemma requestListener_callback:
  "to_callback srv req \<Longrightarrow>
   \<exists>url. req_url req = Some url \<and> fst (requestListener srv req) = handleAuthentication srv (searchParams url)"
  by (cases "req_url req") (simp_all add: requestListener_def to_callback_def Let_def)

lemma requestListener_handleAuthentication:
  "req_url req = Some url \<Longrightarrow> pathname url = oauthCallback srv \<Longrightarrow>
   fst (requestListener srv req) = handleAuthentication srv (searchParams url)"
  by (simp add: requestListener_def Let_def)

lemma requestListener_redirect_request:
  "fst (requestListener (new_AuthSSOServer st) (redirect_request params))
     = handleAuthentication (new_AuthSSOServer st) params"
  by (simp add: requestListener_def Let_def redirect_request_def new_AuthSSOServer_def)

lemma requestListener_callback_settles:
  "to_callback srv req \<Longrightarrow> authenticationPromise srv = None \<Longrightarrow>
   \<exists>out. authenticationPromise (fst (requestListener srv req)) = Some out"
  using requestListener_callback [of srv req] handleAuthentication_settles [of srv] by auto

lemma requestListener_callback_200:
  "to_callback srv req \<Longrightarrow> res_status (snd (requestListener srv req)) = Some 200 \<and>
     res_body (snd (requestListener srv req)) = Some ''Success!''"
  by (cases "req_url req") (simp_all add: requestListener_def to_callback_def Let_def writeHead_def end_response_def)

lemma serve_Cons:
  "serve srv (r # rs) =
     (fst (serve (fst (requestListener srv r)) rs),
      snd (requestListener srv r) # snd (serve (fst (requestListener srv r)) rs))"
  by (simp split: prod.splits)

lemma serve_oauthCallback [simp]: "oauthCallback (fst (serve srv reqs)) = oauthCallback srv"
proof (induction reqs arbitrary: srv)
  case Nil
  show ?case by simp
next
  case (Cons r rs)
  have "oauthCallback (fst (serve (fst (requestListener srv r)) rs)) = oauthCallback srv"
    using Cons.IH [of "fst (requestListener srv r)"] by simp
  then show ?case by (simp only: serve_Cons fst_conv)
qed

lemma serve_settled:
  "authenticationPromise srv = Some out \<Longrightarrow> authenticationPromise (fst (serve srv reqs)) = Some out"
proof (induction reqs arbitrary: srv)
  case Nil
  then show ?case by simp
next
  case (Cons r rs)
  have "authenticationPromise (fst (requestListener srv r)) = Some out"
    using Cons.prems by (rule requestListener_settled)
  then have "authenticationPromise (fst (serve (fst (requestListener srv r)) rs)) = Some out"
    by (rule Cons.IH)
  then show ?case by (simp only: serve_Cons fst_conv)
qed

lemma serve_append:
  "serve srv (xs @ ys) =
     (fst (serve (fst (serve srv xs)) ys), snd (serve srv xs) @ snd (serve (fst (serve srv xs)) ys))"
  by (induction xs arbitrary: srv) (simp_all add: serve_Cons del: serve.simps(2))

lemma serve_length [simp]: "length (snd (serve srv reqs)) = length reqs"
  by (induction reqs arbitrary: srv) (simp_all only: serve_Cons serve.simps snd_conv list.size)

lemma serve_no_callback:
  "\<forall>r \<in> set reqs. \<not> to_callback srv r \<Longrightarrow> fst (serve srv reqs) = srv"
proof (induction reqs)
  case Nil
  show ?case by simp
next
  case (Cons r rs)
  then have "fst (requestListener srv r) = srv" by (simp add: requestListener_other_path)
  with Cons show ?case by (simp only: serve_Cons fst_conv) simp
qed

lemma serve_first_wins:
  assumes "authenticationPromise srv = None"
    and "\<forall>r \<in> set pre. \<not> to_callback srv r"
    and "to_callback srv req"
  shows "authenticationPromise (fst (serve srv (pre @ req # post))) =
           authenticationPromise (fst (requestListener srv req))
         \<and> (\<exists>out. authenticationPromise (fst (requestListener srv req)) = Some out)"
proof -
  have pre: "fst (serve srv pre) = srv" using assms(2) by (rule serve_no_callback)
  obtain out where out: "authenticationPromise (fst (requestListener srv req)) = Some out"
    using requestListener_callback_settles [OF assms(3) assms(1)] by auto
  have "authenticationPromise (fst (serve (fst (requestListener srv req)) post)) = Some out"
    using out by (rule serve_settled)
  then have "authenticationPromise (fst (serve srv (req # post))) = Some out"
    by (simp only: serve_Cons fst_conv)
  then show ?thesis using pre out by (simp add: serve_append)
qed

lemma serve_status:
  "i < length reqs \<Longrightarrow> to_callback srv (reqs ! i) \<Longrightarrow>
     res_status (snd (serve srv reqs) ! i) = Some 200 \<and> res_body (snd (serve srv reqs) ! i) = Some ''Success!''"
proof (induction reqs arbitrary: srv i)
  case Nil
  then show ?case by simp
next
  case (Cons r rs)
  show ?case
  proof (cases i)
    case 0
    with Cons.prems show ?thesis
      using requestListener_callback_200 [of srv r] by (simp only: serve_Cons snd_conv) simp
  next
    case (Suc j)
    have cb: "to_callback (fst (requestListener srv r)) (rs ! j)"
      using Cons.prems Suc by (simp add: to_callback_def)
    have "j < length rs" using Cons.prems Suc by simp
    from Cons.IH [OF this cb] show ?thesis using Suc by (simp only: serve_Cons snd_conv) simp
  qed
qed

lemma string_of_nat_last: "string_of_nat n \<noteq> [] \<and> last (string_of_nat n) = digit_char (n mod 10)"
  by (subst string_of_nat.simps, subst string_of_nat.simps) simp

lemma digit_char_not_slash: "digit_char d \<noteq> CHR ''/''"
  by (simp add: digit_char_def)

lemma example_digits: "string_of_nat 60821 = ''60821''"
  by (simp add: string_of_nat.simps digit_char_def)

lemma start_listening:
  "start (Listening (AddressInfo p)) (new_AuthSSOServer st) =
     (Inr (), (new_AuthSSOServer st)\<lparr>listening := True, server_address := AddressInfo p\<rparr>)"
  by (simp add: start_def new_AuthSSOServer_def)

lemma redirectUri_listening:
  "redirectUri ((new_AuthSSOServer st)\<lparr>listening := True, server_address := AddressInfo p\<rparr>)
     = Inr (''http://127.0.0.1:'' @ string_of_nat p)"
  by (simp add: redirectUri_def getPort_def number_toString_def new_AuthSSOServer_def)

lemma close_listening:
  "close ((new_AuthSSOServer st)\<lparr>listening := True, server_address := AddressInfo p\<rparr>)
     = (Inr (), (new_AuthSSOServer st)\<lparr>listening := False, server_address := NullAddress\<rparr>)"
  by (simp add: close_def new_AuthSSOServer_def)

section \<open>The redirect listener: the decision order\<close>

text \<open>
  Claim C2 as stated fails on a parameter that is present and empty: for the request
  \<^verbatim>\<open>/?code=&state=S\<close> to a listener constructed with the state \<^verbatim>\<open>S\<close>, the stated order
  resolves the future with the empty code, and the listener rejects it with
  \<^verbatim>\<open>MissingCodeError\<close>.
\<close>

theorem empty_code_redirect_counterexample:
  "waitForAuthorization (fst (requestListener (new_AuthSSOServer ''S'')
       (redirect_request [(''code'', ''''), (''state'', ''S'')]))) = Some (Inl MissingCodeError)
   \<and> spec_redirect_outcome ''S'' [(''code'', ''''), (''state'', ''S'')] = Inr ''''
   \<and> waitForAuthorization (fst (requestListener (new_AuthSSOServer ''S'')
       (redirect_request [(''code'', ''''), (''state'', ''S'')])))
     \<noteq> Some (spec_redirect_outcome ''S'' [(''code'', ''''), (''state'', ''S'')])"
  unfolding requestListener_redirect_request
  by (simp add: server_defs spec_redirect_outcome_def error_defs)

text \<open>
  Claim C2, amended: for every request to the registered path of a listener whose future
  is still pending, the outcome of the request listener is decided in this order. If the
  query has both \<^verbatim>\<open>error\<close> and \<^verbatim>\<open>error_description\<close>, the future is rejected with the
  \<^verbatim>\<open>AuthError\<close> whose message is \<^verbatim>\<open><error>: <error_description>\<close>; else if \<^verbatim>\<open>code\<close> is absent or empty, with
  \<^verbatim>\<open>MissingCodeError\<close>; else if \<^verbatim>\<open>state\<close> is absent or empty, with \<^verbatim>\<open>MissingStateError\<close>;
  else if \<^verbatim>\<open>state\<close> differs from the state given at construction, with
  \<^verbatim>\<open>InvalidStateError\<close>; else the future is resolved with the value of \<^verbatim>\<open>code\<close>.
\<close>

theorem redirect_decision:
  assumes "waitForAuthorization srv = None"
    and "req_url req = Some url" and "pathname url = oauthCallback srv"
    and "params = searchParams url"
  shows
    "(params_get params ''error'' = Some e \<and> params_get params ''error_description'' = Some d \<longrightarrow>
        waitForAuthorization (fst (requestListener srv req)) = Some (Inl (AuthError e d))
        \<and> err_message (AuthError e d) = e @ '': '' @ d)
     \<and> (\<not> (params_has params ''error'' \<and> params_has params ''error_description'')
          \<and> (params_get params ''code'' = None \<or> params_get params ''code'' = Some []) \<longrightarrow>
        waitForAuthorization (fst (requestListener srv req)) = Some (Inl MissingCodeError))
     \<and> (\<not> (params_has params ''error'' \<and> params_has params ''error_description'')
          \<and> params_get params ''code'' = Some c \<and> c \<noteq> []
          \<and> (params_get params ''state'' = None \<or> params_get params ''state'' = Some []) \<longrightarrow>
        waitForAuthorization (fst (requestListener srv req)) = Some (Inl MissingStateError))
     \<and> (\<not> (params_has params ''error'' \<and> params_has params ''error_description'')
          \<and> params_get params ''code'' = Some c \<and> c \<noteq> []
          \<and> params_get params ''state'' = Some s \<and> s \<noteq> [] \<and> s \<noteq> state srv \<longrightarrow>
        waitForAuthorization (fst (requestListener srv req)) = Some (Inl InvalidStateError))
     \<and> (\<not> (params_has params ''error'' \<and> params_has params ''error_description'')
          \<and> params_get params ''code'' = Some c \<and> c \<noteq> []
          \<and> params_get params ''state'' = Some s \<and> s \<noteq> [] \<and> s = state srv \<longrightarrow>
        waitForAuthorization (fst (requestListener srv req)) = Some (Inr c))"
proof -
  have pending: "authenticationPromise srv = None"
    using assms(1) by (simp add: waitForAuthorization_def)
  have run: "waitForAuthorization (fst (requestListener srv req))
      = authenticationPromise (handleAuthentication srv params)"
    using assms(2,3,4) by (simp add: requestListener_handleAuthentication waitForAuthorization_def)
  have tok: "\<not> (params_has params ''error'' \<and> params_has params ''error_description'') \<Longrightarrow>
      waitForAuthorization (fst (requestListener srv req)) = authenticationPromise (handleToken srv params)"
    by (simp add: run handleAuthentication_handleToken)
  have c1: "params_get params ''error'' = Some e \<and> params_get params ''error_description'' = Some d \<longrightarrow>
        waitForAuthorization (fst (requestListener srv req)) = Some (Inl (AuthError e d))
        \<and> err_message (AuthError e d) = e @ '': '' @ d"
    using pending by (simp add: run handleAuthentication_def params_has_get AuthError_def)
  have c2: "\<not> (params_has params ''error'' \<and> params_has params ''error_description'')
          \<and> (params_get params ''code'' = None \<or> params_get params ''code'' = Some []) \<longrightarrow>
        waitForAuthorization (fst (requestListener srv req)) = Some (Inl MissingCodeError)"
    using pending tok by (auto simp add: handleToken_def)
  have c3: "\<not> (params_has params ''error'' \<and> params_has params ''error_description'')
          \<and> params_get params ''code'' = Some c \<and> c \<noteq> []
          \<and> (params_get params ''state'' = None \<or> params_get params ''state'' = Some []) \<longrightarrow>
        waitForAuthorization (fst (requestListener srv req)) = Some (Inl MissingStateError)"
    using pending tok by (auto simp add: handleToken_def)
  have c4: "\<not> (params_has params ''error'' \<and> params_has params ''error_description'')
          \<and> params_get params ''code'' = Some c \<and> c \<noteq> []
          \<and> params_get params ''state'' = Some s \<and> s \<noteq> [] \<and> s \<noteq> state srv \<longrightarrow>
        waitForAuthorization (fst (requestListener srv req)) = Some (Inl InvalidStateError)"
    using pending tok by (auto simp add: handleToken_def)
  have c5: "\<not> (params_has params ''error'' \<and> params_has params ''error_description'')
          \<and> params_get params ''code'' = Some c \<and> c \<noteq> []
          \<and> params_get params ''state'' = Some s \<and> s \<noteq> [] \<and> s = state srv \<longrightarrow>
        waitForAuthorization (fst (requestListener srv req)) = Some (Inr c)"
    using pending tok by (auto simp add: handleToken_def)
  show ?thesis
    by (intro conjI c1 c2 c3 c4 c5)
qed

text \<open>
  The five requests of the listener's tests, on a listener constructed with the state
  \<^verbatim>\<open>state\<close>.
\<close>

theorem redirect_decision_witness:
  "waitForAuthorization (fst (requestListener (new_AuthSSOServer ''state'')
       (redirect_request [(''error'', ''foo''), (''error_description'', ''foo'')])))
     = Some (Inl (AuthError ''foo'' ''foo''))
   \<and> err_message (AuthError ''foo'' ''foo'') = ''foo: foo''
   \<and> waitForAuthorization (fst (requestListener (new_AuthSSOServer ''state'')
       (redirect_request [(''state'', ''state'')]))) = Some (Inl MissingCodeError)
   \<and> waitForAuthorization (fst (requestListener (new_AuthSSOServer ''state'')
       (redirect_request [(''code'', ''zfhgaiufgsbdfigsdfg'')]))) = Some (Inl MissingStateError)
   \<and> waitForAuthorization (fst (requestListener (new_AuthSSOServer ''state'')
       (redirect_request [(''code'', ''zfhgaiufgsbdfigsdfg''), (''state'', ''someInvalidState'')])))
     = Some (Inl InvalidStateError)
   \<and> waitForAuthorization (fst (requestListener (new_AuthSSOServer ''state'')
       (redirect_request [(''code'', ''zfhgaiufgsbdfigsdfg''), (''state'', ''state'')])))
     = Some (Inr ''zfhgaiufgsbdfigsdfg'')"
proof -
  have pending: "waitForAuthorization (new_AuthSSOServer ''state'') = None"
    by (simp add: server_defs)
  have url: "req_url (redirect_request params) = Some \<lparr> pathname = ''/'', searchParams = params \<rparr>"
    "pathname \<lparr> pathname = ''/'', searchParams = params \<rparr> = oauthCallback (new_AuthSSOServer ''state'')"
    "params = searchParams \<lparr> pathname = ''/'', searchParams = params \<rparr>" for params
    by (simp_all add: redirect_request_def new_AuthSSOServer_def)
  note inst = redirect_decision [OF pending url]
  show ?thesis
    using
      inst [of "[(''error'', ''foo''), (''error_description'', ''foo'')]" "''foo''" "''foo''"]
      inst [of "[(''state'', ''state'')]"]
      inst [of "[(''code'', ''zfhgaiufgsbdfigsdfg'')]" _ _ "''zfhgaiufgsbdfigsdfg''"]
      inst [of "[(''code'', ''zfhgaiufgsbdfigsdfg''), (''state'', ''someInvalidState'')]" _ _
        "''zfhgaiufgsbdfigsdfg''" "''someInvalidState''"]
      inst [of "[(''code'', ''zfhgaiufgsbdfigsdfg''), (''state'', ''state'')]" _ _
        "''zfhgaiufgsbdfigsdfg''" "''state''"]
    by (simp add: new_AuthSSOServer_def)
qed

section \<open>The redirect listener: one settlement\<close>

text \<open>
  Claim C3: for every sequence of requests handled by one listener, the future returned
  by \<^verbatim>\<open>waitForAuthorization\<close> settles at most once. A settled future keeps its outcome
  through every later request; on a pending future the first request to the registered
  path settles it, and its outcome is the final one whatever follows; with no request to
  that path the future stays pending. Every request gets its response, and that of every
  request to the registered path has the status 200 and is ended with the body
  \<^verbatim>\<open>Success!\<close>, so that it is sent, before and after the settlement.
\<close>

theorem authorization_settles_once:
  "(waitForAuthorization srv = Some out \<longrightarrow> waitForAuthorization (fst (serve srv reqs)) = Some out)
   \<and> (waitForAuthorization srv = None \<and> (\<forall>r \<in> set pre. \<not> to_callback srv r) \<and> to_callback srv req \<longrightarrow>
        (\<exists>first. waitForAuthorization (fst (requestListener srv req)) = Some first
           \<and> waitForAuthorization (fst (serve srv (pre @ req # post))) = Some first))
   \<and> (waitForAuthorization srv = None \<and> (\<forall>r \<in> set reqs. \<not> to_callback srv r) \<longrightarrow>
        waitForAuthorization (fst (serve srv reqs)) = None)
   \<and> length (snd (serve srv reqs)) = length reqs
   \<and> (\<forall>i < length reqs. to_callback srv (reqs ! i) \<longrightarrow>
        res_status (snd (serve srv reqs) ! i) = Some 200
        \<and> res_body (snd (serve srv reqs) ! i) = Some ''Success!'')"
proof -
  have c1: "waitForAuthorization srv = Some out \<longrightarrow> waitForAuthorization (fst (serve srv reqs)) = Some out"
    by (simp add: waitForAuthorization_def serve_settled)
  have c2: "waitForAuthorization srv = None \<and> (\<forall>r \<in> set pre. \<not> to_callback srv r) \<and> to_callback srv req \<longrightarrow>
        (\<exists>first. waitForAuthorization (fst (requestListener srv req)) = Some first
           \<and> waitForAuthorization (fst (serve srv (pre @ req # post))) = Some first)"
    using serve_first_wins [of srv pre req post] by (auto simp add: waitForAuthorization_def)
  have c3: "waitForAuthorization srv = None \<and> (\<forall>r \<in> set reqs. \<not> to_callback srv r) \<longrightarrow>
        waitForAuthorization (fst (serve srv reqs)) = None"
    by (simp add: waitForAuthorization_def serve_no_callback)
  have c4: "length (snd (serve srv reqs)) = length reqs"
    by simp
  have c5: "\<forall>i < length reqs. to_callback srv (reqs ! i) \<longrightarrow>
        res_status (snd (serve srv reqs) ! i) = Some 200
        \<and> res_body (snd (serve srv reqs) ! i) = Some ''Success!''"
    using serve_status [of _ reqs srv] by blast
  show ?thesis
    by (intro conjI c1 c2 c3 c4 c5)
qed

text \<open>
  On the three example requests the second settles the future with the code \<^verbatim>\<open>XYZ\<close>,
  the third leaves it so, and both get the status 200 and the body; the first gets
  neither.
\<close>

theorem authorization_settles_once_witness:
  "waitForAuthorization (fst (serve (new_AuthSSOServer ''abc'') example_requests)) = Some (Inr ''XYZ'')
   \<and> map res_status (snd (serve (new_AuthSSOServer ''abc'') example_requests)) = [None, Some 200, Some 200]
   \<and> map res_body (snd (serve (new_AuthSSOServer ''abc'') example_requests))
       = [None, Some ''Success!'', Some ''Success!'']
   \<and> waitForAuthorization (fst (serve (fst (serve (new_AuthSSOServer ''abc'') (take 2 example_requests)))
        (drop 2 example_requests))) = Some (Inr ''XYZ'')"
proof -
  have ev: "serve (new_AuthSSOServer ''abc'') example_requests =
      ((new_AuthSSOServer ''abc'')\<lparr>authenticationPromise := Some (Inr ''XYZ'')\<rparr>,
       [\<lparr> res_headers = [(''Access-Control-Allow-Methods'', ''GET'')], res_status = None, res_body = None \<rparr>,
        \<lparr> res_headers = [(''Access-Control-Allow-Methods'', ''GET'')], res_status = Some 200,
          res_body = Some ''Success!'' \<rparr>,
        \<lparr> res_headers = [(''Access-Control-Allow-Origin'', ''*''), (''Access-Control-Allow-Methods'', ''GET'')],
          res_status = Some 200, res_body = Some ''Success!'' \<rparr>])"
    by (simp add: example_requests_def listener_defs server_defs error_defs)
  have pre: "\<forall>r \<in> set (take 1 example_requests). \<not> to_callback (new_AuthSSOServer ''abc'') r"
    by (simp add: example_requests_def to_callback_def new_AuthSSOServer_def)
  have cb: "to_callback (new_AuthSSOServer ''abc'') (example_requests ! 1)"
    by (simp add: example_requests_def to_callback_def new_AuthSSOServer_def)
  have pending: "waitForAuthorization (new_AuthSSOServer ''abc'') = None"
    by (simp add: server_defs)
  have split: "take 1 example_requests @ example_requests ! 1 # drop 2 example_requests = example_requests"
    by (simp add: example_requests_def)
  have settled: "waitForAuthorization (fst (serve (new_AuthSSOServer ''abc'') (take 2 example_requests)))
      = Some (Inr ''XYZ'')"
    by (simp add: example_requests_def listener_defs server_defs error_defs)
  show ?thesis
    using authorization_settles_once [of "new_AuthSSOServer ''abc''" _ example_requests
        "take 1 example_requests" "example_requests ! 1" "drop 2 example_requests"]
      authorization_settles_once [of "fst (serve (new_AuthSSOServer ''abc'') (take 2 example_requests))"
        "Inr ''XYZ''" "drop 2 example_requests"]
      pre cb pending split settled ev
    by (simp add: waitForAuthorization_def)
qed

section \<open>The redirect listener: an error without its description\<close>

text \<open>
  Claim C9: a request to the registered path whose query does not have both \<^verbatim>\<open>error\<close>
  and \<^verbatim>\<open>error_description\<close> is handled by the code and state checks of \<^verbatim>\<open>handleToken\<close>
  alone, and on a pending future its outcome is no \<^verbatim>\<open>AuthError\<close>. So the query \<^verbatim>\<open>error=foo&code=C&state=S\<close>, with
  a code \<^verbatim>\<open>C\<close> and a state \<^verbatim>\<open>S\<close> that are not empty, on a listener constructed with
  \<^verbatim>\<open>S\<close>, resolves the future with \<^verbatim>\<open>C\<close>, and \<^verbatim>\<open>error=foo\<close> alone, as
  \<^verbatim>\<open>error_description=foo\<close> alone, rejects it with \<^verbatim>\<open>MissingCodeError\<close>.
\<close>

theorem error_without_description:
  "(req_url req = Some url \<and> pathname url = oauthCallback srv
      \<and> \<not> (params_has (searchParams url) ''error'' \<and> params_has (searchParams url) ''error_description'') \<longrightarrow>
      fst (requestListener srv req) = handleToken srv (searchParams url)
      \<and> (waitForAuthorization srv = None \<longrightarrow>
           waitForAuthorization (fst (requestListener srv req)) \<noteq> Some (Inl (AuthError e d))))
   \<and> (c \<noteq> [] \<and> s \<noteq> [] \<longrightarrow>
        waitForAuthorization (fst (requestListener (new_AuthSSOServer s)
          (redirect_request [(''error'', ''foo''), (''code'', c), (''state'', s)]))) = Some (Inr c))
   \<and> waitForAuthorization (fst (requestListener (new_AuthSSOServer s)
          (redirect_request [(''error'', ''foo'')]))) = Some (Inl MissingCodeError)
   \<and> waitForAuthorization (fst (requestListener (new_AuthSSOServer s)
          (redirect_request [(''error_description'', ''foo'')]))) = Some (Inl MissingCodeError)"
proof -
  have tok: "waitForAuthorization srv = None \<longrightarrow>
      waitForAuthorization (handleToken srv params) \<noteq> Some (Inl (AuthError e d))" for params
    by (auto simp add: handleToken_def waitForAuthorization_def error_defs split: option.splits)
  have c1: "req_url req = Some url \<and> pathname url = oauthCallback srv
      \<and> \<not> (params_has (searchParams url) ''error'' \<and> params_has (searchParams url) ''error_description'') \<longrightarrow>
      fst (requestListener srv req) = handleToken srv (searchParams url)
      \<and> (waitForAuthorization srv = None \<longrightarrow>
           waitForAuthorization (fst (requestListener srv req)) \<noteq> Some (Inl (AuthError e d)))"
    using tok by (simp add: requestListener_handleAuthentication handleAuthentication_handleToken)
  have c2: "c \<noteq> [] \<and> s \<noteq> [] \<longrightarrow>
        waitForAuthorization (fst (requestListener (new_AuthSSOServer s)
          (redirect_request [(''error'', ''foo''), (''code'', c), (''state'', s)]))) = Some (Inr c)"
    unfolding requestListener_redirect_request by (simp add: server_defs)
  have c3: "waitForAuthorization (fst (requestListener (new_AuthSSOServer s)
          (redirect_request [(''error'', ''foo'')]))) = Some (Inl MissingCodeError)"
    unfolding requestListener_redirect_request by (simp add: server_defs)
  have c4: "waitForAuthorization (fst (requestListener (new_AuthSSOServer s)
          (redirect_request [(''error_description'', ''foo'')]))) = Some (Inl MissingCodeError)"
    unfolding requestListener_redirect_request by (simp add: server_defs)
  show ?thesis
    by (intro conjI c1 c2 c3 c4)
qed

text \<open>
  The query \<^verbatim>\<open>error=foo&code=C&state=S\<close> on a listener constructed with the state \<^verbatim>\<open>S\<close>,
  and the query \<^verbatim>\<open>error=foo\<close>.
\<close>

theorem error_without_description_witness:
  "fst (requestListener (new_AuthSSOServer ''S'')
          (redirect_request [(''error'', ''foo''), (''code'', ''C''), (''state'', ''S'')]))
     = handleToken (new_AuthSSOServer ''S'') [(''error'', ''foo''), (''code'', ''C''), (''state'', ''S'')]
   \<and> waitForAuthorization (fst (requestListener (new_AuthSSOServer ''S'')
          (redirect_request [(''error'', ''foo''), (''code'', ''C''), (''state'', ''S'')]))) = Some (Inr ''C'')
   \<and> waitForAuthorization (fst (requestListener (new_AuthSSOServer ''S'')
          (redirect_request [(''error'', ''foo'')]))) = Some (Inl MissingCodeError)"
proof -
  have h: "req_url (redirect_request [(''error'', ''foo''), (''code'', ''C''), (''state'', ''S'')])
        = Some \<lparr> pathname = ''/'',
                 searchParams = [(''error'', ''foo''), (''code'', ''C''), (''state'', ''S'')] \<rparr>
      \<and> pathname \<lparr> pathname = ''/'',
                 searchParams = [(''error'', ''foo''), (''code'', ''C''), (''state'', ''S'')] \<rparr>
          = oauthCallback (new_AuthSSOServer ''S'')
      \<and> \<not> (params_has (searchParams \<lparr> pathname = ''/'',
                 searchParams = [(''error'', ''foo''), (''code'', ''C''), (''state'', ''S'')] \<rparr>) ''error''
           \<and> params_has (searchParams \<lparr> pathname = ''/'',
                 searchParams = [(''error'', ''foo''), (''code'', ''C''), (''state'', ''S'')] \<rparr>)
                ''error_description'')"
    by (simp add: redirect_request_def new_AuthSSOServer_def)
  have nonempty: "''C'' \<noteq> [] \<and> ''S'' \<noteq> []"
    by simp
  have r1: "fst (requestListener (new_AuthSSOServer ''S'')
          (redirect_request [(''error'', ''foo''), (''code'', ''C''), (''state'', ''S'')]))
     = handleToken (new_AuthSSOServer ''S'')
         (searchParams \<lparr> pathname = ''/'',
                 searchParams = [(''error'', ''foo''), (''code'', ''C''), (''state'', ''S'')] \<rparr>)"
    using error_without_description [of
        "redirect_request [(''error'', ''foo''), (''code'', ''C''), (''state'', ''S'')]"
        "\<lparr> pathname = ''/'', searchParams = [(''error'', ''foo''), (''code'', ''C''), (''state'', ''S'')] \<rparr>"
        "new_AuthSSOServer ''S''"] h
    by blast
  have r2: "waitForAuthorization (fst (requestListener (new_AuthSSOServer ''S'')
          (redirect_request [(''error'', ''foo''), (''code'', ''C''), (''state'', ''S'')]))) = Some (Inr ''C'')
     \<and> waitForAuthorization (fst (requestListener (new_AuthSSOServer ''S'')
          (redirect_request [(''error'', ''foo'')]))) = Some (Inl MissingCodeError)"
    using error_without_description [of _ _ _ _ _ "''C''" "''S''"] nonempty
    by blast
  show ?thesis
    using r1 r2 by simp
qed

section \<open>The redirect listener: the redirect URI\<close>

text \<open>
  Claim C8 as stated fails: after \<^verbatim>\<open>start\<close> succeeded on the port 60821, the redirect
  URI is \<^verbatim>\<open>http://127.0.0.1:60821\<close>, with no slash after the port.
\<close>

theorem redirectUri_no_slash_counterexample:
  "fst (start (Listening (AddressInfo 60821)) (new_AuthSSOServer ''state'')) = Inr ()
   \<and> redirectUri (snd (start (Listening (AddressInfo 60821)) (new_AuthSSOServer ''state'')))
       = Inr ''http://127.0.0.1:60821''
   \<and> redirectUri (snd (start (Listening (AddressInfo 60821)) (new_AuthSSOServer ''state'')))
       \<noteq> Inr ''http://127.0.0.1:60821/''"
  by (simp add: start_def new_AuthSSOServer_def redirectUri_def getPort_def number_toString_def
      string_of_nat.simps digit_char_def)

text \<open>
  Claim C8, amended: after \<^verbatim>\<open>start\<close> succeeds on a new listener bound to a TCP port,
  the redirect URI is the string \<^verbatim>\<open>http://127.0.0.1:<port>\<close> for the bound port, in
  decimal digits. It ends with the last digit of the port: there is no trailing slash.
\<close>

theorem redirectUri_after_start:
  assumes "start (Listening (AddressInfo p)) (new_AuthSSOServer st) = (r, srv)"
  shows "r = Inr ()
     \<and> redirectUri srv = Inr (''http://127.0.0.1:'' @ string_of_nat p)
     \<and> last (''http://127.0.0.1:'' @ string_of_nat p) \<noteq> CHR ''/''
     \<and> redirectUri srv \<noteq> Inr (''http://127.0.0.1:'' @ string_of_nat p @ ''/'')"
proof -
  have r: "r = Inr ()" and srv: "srv = (new_AuthSSOServer st)\<lparr>listening := True, server_address := AddressInfo p\<rparr>"
    using assms by (auto simp add: start_def new_AuthSSOServer_def)
  have uri: "redirectUri srv = Inr (''http://127.0.0.1:'' @ string_of_nat p)"
    by (simp add: srv redirectUri_def getPort_def number_toString_def new_AuthSSOServer_def)
  have no_slash: "last (''http://127.0.0.1:'' @ string_of_nat p) \<noteq> CHR ''/''"
    using string_of_nat_last [of p] digit_char_not_slash by simp
  show ?thesis
    using r uri no_slash by simp
qed

text \<open>
  The listener of the tests, started on the port 60821.
\<close>

theorem redirectUri_after_start_witness:
  "fst (start (Listening (AddressInfo 60821)) (new_AuthSSOServer ''state'')) = Inr ()
   \<and> redirectUri (snd (start (Listening (AddressInfo 60821)) (new_AuthSSOServer ''state'')))
       = Inr ''http://127.0.0.1:60821''"
proof -
  have st: "start (Listening (AddressInfo 60821)) (new_AuthSSOServer ''state'')
      = (fst (start (Listening (AddressInfo 60821)) (new_AuthSSOServer ''state'')),
         snd (start (Listening (AddressInfo 60821)) (new_AuthSSOServer ''state'')))"
    by simp
  show ?thesis
    using redirectUri_after_start [OF st] example_digits by simp
qed

section \<open>Expiration\<close>

lemmas example_defs = example_profile_def example_registration_def example_token_def
  example_access_def example_world_def example_env_def

lemmas provider_defs = getToken_def refreshToken_def refreshToken_try_def refreshToken_catch_def
  invalidate_def invalidate_settled_def invalidate_reason_def cache_token_load_def cache_token_save_def
  cache_token_clear_def cache_registration_clear_def emit_def tokenCacheKey_def registrationCacheKey_def
  formatToken_def hasProps_refreshToken_def isExpired_def expirationBufferMs_def getSessionDuration_def
  getSessionCreationDate_def refreshGrantType_def builderIdStartUrl_def

lemmas failure_defs = network_error_def server_fault_def client_fault_def disk_error_def old_token_def
  new_token_def cached_world_def

text \<open>
  Claim C6: for every record with an \<^verbatim>\<open>expiresAt\<close> and every clock time,
  \<^verbatim>\<open>isExpired\<close> is true exactly when the clock time plus 60000 ms is at least
  \<^verbatim>\<open>expiresAt\<close>: true for every \<^verbatim>\<open>expiresAt\<close> in the past or at most 60000 ms in the
  future, false for every \<^verbatim>\<open>expiresAt\<close> more than 60000 ms in the future.
\<close>

theorem isExpired_buffer:
  "(isExpired env expirable \<longleftrightarrow> clock_now env + 60000 \<ge> expiresAt expirable)
   \<and> (expiresAt expirable \<le> clock_now env \<longrightarrow> isExpired env expirable)
   \<and> (clock_now env < expiresAt expirable \<and> expiresAt expirable - clock_now env \<le> 60000 \<longrightarrow>
        isExpired env expirable)
   \<and> (expiresAt expirable - clock_now env > 60000 \<longrightarrow> \<not> isExpired env expirable)"
  by (simp add: isExpired_def expirationBufferMs_def)

text \<open>
  At the clock time \<open>1000000\<close>: a token that expired at \<open>999999\<close> and one that expires
  at \<open>1060000\<close> are expired, one that expires at \<open>1060001\<close> and a registration that
  expires at \<open>9000000\<close> are not.
\<close>

theorem isExpired_buffer_witness:
  "isExpired (example_env None None (Inl MissingCodeError) True) (example_token ''a'' 999999 None)
   \<and> isExpired (example_env None None (Inl MissingCodeError) True) (example_token ''a'' 1060000 None)
   \<and> \<not> isExpired (example_env None None (Inl MissingCodeError) True) (example_token ''a'' 1060001 None)
   \<and> \<not> isExpired (example_env None None (Inl MissingCodeError) True) (example_registration 9000000)"
  using isExpired_buffer [of "example_env None None (Inl MissingCodeError) True" "example_token ''a'' 999999 None"]
    isExpired_buffer [of "example_env None None (Inl MissingCodeError) True" "example_token ''a'' 1060000 None"]
    isExpired_buffer [of "example_env None None (Inl MissingCodeError) True" "example_token ''a'' 1060001 None"]
    isExpired_buffer [of "example_env None None (Inl MissingCodeError) True" "example_registration 9000000"]
  by (simp add: example_defs)

section \<open>The access token provider: lemmas\<close>

subsection \<open>The cache calls\<close>

lemma emit_fields [simp]:
  "token_cache (emit ev w) = token_cache w"
  "registration_cache (emit ev w) = registration_cache w"
  "sessionCreationDates (emit ev w) = sessionCreationDates w"
  "trace (emit ev w) = trace w @ [ev]"
  by (simp_all add: emit_def)

lemma cache_token_load_eq:
  "cache_token_load env key w =
     (case token_load_error env of Some e \<Rightarrow> Inl e | None \<Rightarrow> Inr (token_cache w key), emit (TokenLoad key) w)"
  by (simp add: cache_token_load_def Let_def split: option.splits)

lemma cache_token_clear_frame [simp]:
  "registration_cache (snd (cache_token_clear env key reason w)) = registration_cache w"
  "sessionCreationDates (snd (cache_token_clear env key reason w)) = sessionCreationDates w"
  "trace (snd (cache_token_clear env key reason w)) = trace w @ [TokenClear key reason]"
  by (simp_all add: cache_token_clear_def Let_def split: option.splits)

lemma cache_token_clear_cache:
  "token_cache (snd (cache_token_clear env key reason w)) =
     (if token_clear_error env = None then (token_cache w)(key := None) else token_cache w)"
  by (simp add: cache_token_clear_def Let_def split: option.splits)

lemma cache_token_clear_result:
  "fst (cache_token_clear env key reason w) =
     (case token_clear_error env of Some e \<Rightarrow> Inl e | None \<Rightarrow> Inr ())"
  by (simp add: cache_token_clear_def Let_def split: option.splits)

lemma cache_registration_clear_frame [simp]:
  "token_cache (snd (cache_registration_clear env key reason w)) = token_cache w"
  "sessionCreationDates (snd (cache_registration_clear env key reason w)) = sessionCreationDates w"
  "trace (snd (cache_registration_clear env key reason w)) = trace w @ [RegistrationClear key reason]"
  by (simp_all add: cache_registration_clear_def Let_def split: option.splits)

lemma cache_registration_clear_cache:
  "registration_cache (snd (cache_registration_clear env key reason w)) =
     (if registration_clear_error env = None then (registration_cache w)(key := None)
      else registration_cache w)"
  by (simp add: cache_registration_clear_def Let_def split: option.splits)

lemma cache_registration_clear_result:
  "fst (cache_registration_clear env key reason w) =
     (case registration_clear_error env of Some e \<Rightarrow> Inl e | None \<Rightarrow> Inr ())"
  by (simp add: cache_registration_clear_def Let_def split: option.splits)

lemma cache_token_save_frame [simp]:
  "registration_cache (snd (cache_token_save env key access w)) = registration_cache w"
  "sessionCreationDates (snd (cache_token_save env key access w)) = sessionCreationDates w"
  "trace (snd (cache_token_save env key access w)) = trace w @ [TokenSave key access]"
  by (simp_all add: cache_token_save_def Let_def split: option.splits)

subsection \<open>Invalidation\<close>

lemma invalidate_settled_eq:
  "invalidate_settled env profile w =
     ((fst (cache_token_clear env (tokenCacheKey profile) invalidate_reason w),
       fst (cache_registration_clear env (registrationCacheKey profile) invalidate_reason
              (snd (cache_token_clear env (tokenCacheKey profile) invalidate_reason w)))),
      snd (cache_registration_clear env (registrationCacheKey profile) invalidate_reason
              (snd (cache_token_clear env (tokenCacheKey profile) invalidate_reason w))))"
  by (simp add: invalidate_settled_def split: prod.splits)

lemma invalidate_eq:
  "invalidate env profile w = (Inr (), snd (invalidate_settled env profile w))"
  by (simp add: invalidate_def split: prod.splits)

lemma invalidate_trace:
  "trace (snd (invalidate env profile w)) =
     trace w @ [TokenClear (tokenCacheKey profile) invalidate_reason,
                RegistrationClear (registrationCacheKey profile) invalidate_reason]"
  by (simp add: invalidate_eq invalidate_settled_eq)

lemma invalidate_token_cache:
  "token_cache (snd (invalidate env profile w)) =
     (if token_clear_error env = None then (token_cache w)(tokenCacheKey profile := None)
      else token_cache w)"
  by (simp add: invalidate_eq invalidate_settled_eq cache_token_clear_cache)

lemma invalidate_registration_cache:
  "registration_cache (snd (invalidate env profile w)) =
     (if registration_clear_error env = None
      then (registration_cache w)(registrationCacheKey profile := None)
      else registration_cache w)"
  by (simp add: invalidate_eq invalidate_settled_eq cache_registration_clear_cache)

lemma invalidate_sessionCreationDates [simp]:
  "sessionCreationDates (snd (invalidate env profile w)) = sessionCreationDates w"
  by (simp add: invalidate_eq invalidate_settled_eq)

subsection \<open>Refresh\<close>

lemma refreshToken_try_eq:
  "refreshToken_try env profile token registration w =
     (case oidc_createToken env (refresh_request token registration) of
        Inl err \<Rightarrow> (Inl err, emit (OidcCreateToken (refresh_request token registration)) w)
      | Inr response \<Rightarrow>
          (case token_save_error env of
             Some err \<Rightarrow>
               (Inl err,
                emit (TokenSave (tokenCacheKey profile) (formatToken profile response registration))
                  (emit (OidcCreateToken (refresh_request token registration)) w))
           | None \<Rightarrow>
               (Inr (formatToken profile response registration),
                (emit (TokenSave (tokenCacheKey profile) (formatToken profile response registration))
                  (emit (OidcCreateToken (refresh_request token registration)) w))
                \<lparr>token_cache := (token_cache w)(tokenCacheKey profile \<mapsto>
                     formatToken profile response registration)\<rparr>)))"
  by (simp add: refreshToken_try_def refresh_request_def refreshGrantType_def cache_token_save_def
      Let_def split: sum.splits option.splits)

lemma refreshToken_try_failure:
  assumes "refreshToken_try env profile token registration w = (Inl err, w1)"
  shows "token_cache w1 = token_cache w" and "registration_cache w1 = registration_cache w"
    and "sessionCreationDates w1 = sessionCreationDates w"
  using assms
  by (auto simp add: refreshToken_try_eq split: sum.splits option.splits)

lemma refreshToken_try_extends:
  "\<exists>evs. trace (snd (refreshToken_try env profile token registration w)) = trace w @ evs
     \<and> (\<forall>ev \<in> set evs. \<not> is_telemetry ev \<and> \<not> interactive ev)"
  by (simp add: refreshToken_try_eq split: sum.splits option.splits)

lemma getSessionDuration_eq:
  "getSessionDuration env w ident =
     (case sessionCreationDates w ident of
        None \<Rightarrow> None
      | Some creationDate \<Rightarrow> Some (date_now env - creationDate))"
  by (simp add: getSessionDuration_def getSessionCreationDate_def split: option.splits)

lemma refreshToken_catch_eq:
  "refreshToken_catch env profile err w =
     (if isNetworkError env err then (Inl err, w)
      else if is_SSOOIDCServiceException err \<and> isClientFault env err then
        (case token_clear_error env of Some clearErr \<Rightarrow> Inl clearErr | None \<Rightarrow> Inl err,
         snd (cache_token_clear env (tokenCacheKey profile)
                (''client fault: SSOOIDCServiceException: '' @ svc_message err)
                (emit (Emit_refreshCredentials (refresh_metric env profile w err)) w)))
      else (Inl err, emit (Emit_refreshCredentials (refresh_metric env profile w err)) w))"
  by (simp add: refreshToken_catch_def refresh_metric_def getSessionDuration_eq builderIdStartUrl_def
      cache_token_clear_def Let_def split: option.splits)

lemma refreshToken_failed:
  "refreshToken_try env profile token registration w = (Inl err, w1) \<Longrightarrow>
   refreshToken env profile token registration w = refreshToken_catch env profile err w1"
  by (simp add: refreshToken_def)

lemma refreshToken_succeeded:
  "refreshToken_try env profile token registration w = (Inr refreshed, w1) \<Longrightarrow>
   refreshToken env profile token registration w = (Inr refreshed, w1)"
  by (simp add: refreshToken_def)

lemma refreshToken_catch_extends:
  "\<exists>evs. trace (snd (refreshToken_catch env profile err w)) = trace w @ evs
     \<and> (\<forall>ev \<in> set evs. \<not> interactive ev)"
  by (simp add: refreshToken_catch_eq)

lemma refreshToken_extends:
  "\<exists>evs. trace (snd (refreshToken env profile token registration w)) = trace w @ evs
     \<and> (\<forall>ev \<in> set evs. \<not> interactive ev)"
proof -
  obtain r w1 where run: "refreshToken_try env profile token registration w = (r, w1)"
    by (cases "refreshToken_try env profile token registration w")
  obtain evs where evs: "trace w1 = trace w @ evs" "\<forall>ev \<in> set evs. \<not> interactive ev"
    using refreshToken_try_extends [of env profile token registration w] run by auto
  show ?thesis
  proof (cases r)
    case (Inl err)
    obtain evs' where evs': "trace (snd (refreshToken_catch env profile err w1)) = trace w1 @ evs'"
      "\<forall>ev \<in> set evs'. \<not> interactive ev"
      using refreshToken_catch_extends [of env profile err w1] by auto
    have "trace (snd (refreshToken env profile token registration w)) = trace w @ (evs @ evs')"
      using run Inl evs(1) evs'(1) by (simp add: refreshToken_failed)
    moreover have "\<forall>ev \<in> set (evs @ evs'). \<not> interactive ev"
      using evs(2) evs'(2) by auto
    ultimately show ?thesis by blast
  next
    case (Inr refreshed)
    then have "trace (snd (refreshToken env profile token registration w)) = trace w @ evs"
      using run evs(1) by (simp add: refreshToken_succeeded)
    then show ?thesis using evs(2) by blast
  qed
qed

lemma refreshToken_success:
  assumes "oidc_createToken env (refresh_request token registration) = Inr response"
    and "token_save_error env = None"
  shows "refreshToken env profile token registration w =
     (Inr (formatToken profile response registration),
      (emit (TokenSave (tokenCacheKey profile) (formatToken profile response registration))
         (emit (OidcCreateToken (refresh_request token registration)) w))
      \<lparr>token_cache := (token_cache w)(tokenCacheKey profile \<mapsto>
           formatToken profile response registration)\<rparr>)"
  using assms by (simp add: refreshToken_def refreshToken_try_eq)

subsection \<open>The cached token\<close>

lemma getToken_load_failed:
  "token_load_error env = Some e \<Longrightarrow>
   getToken env profile w = (Inl e, emit (TokenLoad (tokenCacheKey profile)) w)"
  by (simp add: getToken_def cache_token_load_eq)

lemma getToken_absent:
  "token_load_error env = None \<Longrightarrow> token_cache w (tokenCacheKey profile) = None \<Longrightarrow>
   getToken env profile w = (Inr None, emit (TokenLoad (tokenCacheKey profile)) w)"
  by (simp add: getToken_def cache_token_load_eq)

lemma getToken_unexpired:
  "token_load_error env = None \<Longrightarrow> token_cache w (tokenCacheKey profile) = Some access \<Longrightarrow>
   \<not> isExpired env (cr_token access) \<Longrightarrow>
   getToken env profile w = (Inr (Some (cr_token access)), emit (TokenLoad (tokenCacheKey profile)) w)"
  by (simp add: getToken_def cache_token_load_eq)

lemma getToken_refresh:
  "token_load_error env = None \<Longrightarrow> token_cache w (tokenCacheKey profile) = Some access \<Longrightarrow>
   isExpired env (cr_token access) \<Longrightarrow> cr_registration access = Some registration \<Longrightarrow>
   \<not> isExpired env registration \<Longrightarrow> tk_refreshToken (cr_token access) \<noteq> None \<Longrightarrow>
   getToken env profile w =
     (case refreshToken env profile (cr_token access) registration
             (emit (TokenLoad (tokenCacheKey profile)) w) of
        (Inl err, w2) \<Rightarrow> (Inl err, w2)
      | (Inr refreshed, w2) \<Rightarrow> (Inr (Some (cr_token refreshed)), w2))"
  by (simp add: getToken_def cache_token_load_eq hasProps_refreshToken_def)

lemma getToken_invalidate:
  "token_load_error env = None \<Longrightarrow> token_cache w (tokenCacheKey profile) = Some access \<Longrightarrow>
   isExpired env (cr_token access) \<Longrightarrow> \<not> refreshable env access \<Longrightarrow>
   getToken env profile w =
     (Inr None, snd (invalidate env profile (emit (TokenLoad (tokenCacheKey profile)) w)))"
  by (cases "cr_registration access")
     (auto simp add: getToken_def cache_token_load_eq hasProps_refreshToken_def refreshable_def
        invalidate_eq)

lemma getToken_extends:
  "\<exists>evs. trace (snd (getToken env profile w)) = trace w @ evs \<and> (\<forall>ev \<in> set evs. \<not> interactive ev)"
proof (cases "token_load_error env")
  case (Some e)
  then show ?thesis by (simp add: getToken_load_failed)
next
  case None
  show ?thesis
  proof (cases "token_cache w (tokenCacheKey profile)")
    case absent: None
    with None show ?thesis by (simp add: getToken_absent)
  next
    case (Some access)
    show ?thesis
    proof (cases "isExpired env (cr_token access)")
      case False
      with None Some show ?thesis by (simp add: getToken_unexpired)
    next
      case True
      show ?thesis
      proof (cases "refreshable env access")
        case False
        with None Some True show ?thesis
          by (simp add: getToken_invalidate invalidate_trace)
      next
        case refreshable: True
        then obtain registration where reg: "cr_registration access = Some registration"
          and fresh: "\<not> isExpired env registration" and rt: "tk_refreshToken (cr_token access) \<noteq> None"
          by (auto simp add: refreshable_def split: option.splits)
        obtain evs where evs:
          "trace (snd (refreshToken env profile (cr_token access) registration
                 (emit (TokenLoad (tokenCacheKey profile)) w)))
             = trace (emit (TokenLoad (tokenCacheKey profile)) w) @ evs"
          "\<forall>ev \<in> set evs. \<not> interactive ev"
          using refreshToken_extends by blast
        have "snd (getToken env profile w) =
            snd (refreshToken env profile (cr_token access) registration
                   (emit (TokenLoad (tokenCacheKey profile)) w))"
          by (simp add: getToken_refresh [OF None Some True reg fresh rt] split: prod.splits sum.splits)
        then have "trace (snd (getToken env profile w)) = trace w @ (TokenLoad (tokenCacheKey profile) # evs)"
          using evs(1) by simp
        moreover have "\<forall>ev \<in> set (TokenLoad (tokenCacheKey profile) # evs). \<not> interactive ev"
          using evs(2) by simp
        ultimately show ?thesis by blast
      qed
    qed
  qed
qed

subsection \<open>The browser\<close>

lemma openSsoPortalLink_eq:
  "openSsoPortalLink env location w =
     (case openExternal env location of
        Inl err \<Rightarrow> (Inl err, emit (Emit_loginWithBrowser ''Failed'') (emit (OpenExternal location) w))
      | Inr didOpenUrl \<Rightarrow>
          if didOpenUrl
          then (Inr True, emit (Emit_loginWithBrowser ''Succeeded'') (emit (OpenExternal location) w))
          else (Inl declined_error,
                emit (Emit_loginWithBrowser ''Failed'') (emit (OpenExternal location) w)))"
  by (simp add: openSsoPortalLink_def telemetry_run_loginWithBrowser_def openSsoUrl_def Let_def
      declined_error_def trustedDomainCancellation_def split: sum.splits)

lemma openSsoPortalLink_never_false: "fst (openSsoPortalLink env location w) \<noteq> Inr False"
  by (simp add: openSsoPortalLink_eq split: sum.splits)

lemma authorize_try_declined:
  assumes "listen_result env = Listening (AddressInfo p)"
    and "oidc_authorize env (authorize_request env profile registration p) = Inr location"
    and "openExternal env location = Inr False"
  shows "authorize_try env profile registration (randomUUID env) (new_AuthSSOServer (randomUUID env)) w =
     (Some (Inl declined_error),
      (new_AuthSSOServer (randomUUID env))\<lparr>listening := True, server_address := AddressInfo p\<rparr>,
      emit (Emit_loginWithBrowser ''Failed'') (emit (OpenExternal location)
        (emit (OidcAuthorize (authorize_request env profile registration p)) (emit ServerStart w))))"
  using assms
  by (simp add: authorize_try_def start_listening redirectUri_listening openSsoPortalLink_eq
      authorize_request_def Let_def)

section \<open>The access token provider: invalidation\<close>

text \<open>
  Claim C5: \<^verbatim>\<open>invalidate\<close> calls the clear of the cached token and the clear of the
  cached registration, in this order, and awaits both whatever their outcomes: it
  returns normally for every pair of outcomes, both calls are in the record of calls, the
  settled pair holds the outcome of each, and each entry is removed when its own clear
  succeeds and kept when its own clear fails, whatever the other call did. The two
  caches end the same when the two calls complete in the other order.
\<close>

theorem invalidate_clears_both:
  "fst (invalidate env profile w) = Inr ()
   \<and> trace (snd (invalidate env profile w)) =
       trace w @ [TokenClear (tokenCacheKey profile) ''SsoAccessTokenProvider.invalidate()'',
                  RegistrationClear (registrationCacheKey profile) ''SsoAccessTokenProvider.invalidate()'']
   \<and> fst (invalidate_settled env profile w) =
       (case token_clear_error env of Some e \<Rightarrow> Inl e | None \<Rightarrow> Inr (),
        case registration_clear_error env of Some e \<Rightarrow> Inl e | None \<Rightarrow> Inr ())
   \<and> (token_clear_error env = None \<longrightarrow>
        token_cache (snd (invalidate env profile w)) (tokenCacheKey profile) = None)
   \<and> (registration_clear_error env = None \<longrightarrow>
        registration_cache (snd (invalidate env profile w)) (registrationCacheKey profile) = None)
   \<and> (token_clear_error env \<noteq> None \<longrightarrow>
        token_cache (snd (invalidate env profile w)) = token_cache w)
   \<and> (registration_clear_error env \<noteq> None \<longrightarrow>
        registration_cache (snd (invalidate env profile w)) = registration_cache w)
   \<and> token_cache (snd (invalidate env profile w)) =
       token_cache (snd (cache_token_clear env (tokenCacheKey profile) ''SsoAccessTokenProvider.invalidate()''
         (snd (cache_registration_clear env (registrationCacheKey profile)
                 ''SsoAccessTokenProvider.invalidate()'' w))))
   \<and> registration_cache (snd (invalidate env profile w)) =
       registration_cache (snd (cache_token_clear env (tokenCacheKey profile)
         ''SsoAccessTokenProvider.invalidate()''
         (snd (cache_registration_clear env (registrationCacheKey profile)
                 ''SsoAccessTokenProvider.invalidate()'' w))))"
proof -
  have c1: "fst (invalidate env profile w) = Inr ()"
    by (simp add: invalidate_eq)
  have c2: "trace (snd (invalidate env profile w)) =
       trace w @ [TokenClear (tokenCacheKey profile) ''SsoAccessTokenProvider.invalidate()'',
                  RegistrationClear (registrationCacheKey profile) ''SsoAccessTokenProvider.invalidate()'']"
    using invalidate_trace [of env profile w] by (simp add: invalidate_reason_def)
  have c3: "fst (invalidate_settled env profile w) =
       (case token_clear_error env of Some e \<Rightarrow> Inl e | None \<Rightarrow> Inr (),
        case registration_clear_error env of Some e \<Rightarrow> Inl e | None \<Rightarrow> Inr ())"
    by (simp add: invalidate_settled_eq cache_token_clear_result cache_registration_clear_result)
  have c4: "token_clear_error env = None \<longrightarrow>
        token_cache (snd (invalidate env profile w)) (tokenCacheKey profile) = None"
    by (simp add: invalidate_token_cache)
  have c5: "registration_clear_error env = None \<longrightarrow>
        registration_cache (snd (invalidate env profile w)) (registrationCacheKey profile) = None"
    by (simp add: invalidate_registration_cache)
  have c6: "token_clear_error env \<noteq> None \<longrightarrow>
        token_cache (snd (invalidate env profile w)) = token_cache w"
    by (simp add: invalidate_token_cache)
  have c7: "registration_clear_error env \<noteq> None \<longrightarrow>
        registration_cache (snd (invalidate env profile w)) = registration_cache w"
    by (simp add: invalidate_registration_cache)
  have c8: "token_cache (snd (invalidate env profile w)) =
       token_cache (snd (cache_token_clear env (tokenCacheKey profile) ''SsoAccessTokenProvider.invalidate()''
         (snd (cache_registration_clear env (registrationCacheKey profile)
                 ''SsoAccessTokenProvider.invalidate()'' w))))"
    by (simp add: invalidate_token_cache cache_token_clear_cache)
  have c9: "registration_cache (snd (invalidate env profile w)) =
       registration_cache (snd (cache_token_clear env (tokenCacheKey profile)
         ''SsoAccessTokenProvider.invalidate()''
         (snd (cache_registration_clear env (registrationCacheKey profile)
                 ''SsoAccessTokenProvider.invalidate()'' w))))"
    by (simp add: invalidate_registration_cache cache_registration_clear_cache)
  show ?thesis
    by (intro conjI c1 c2 c3 c4 c5 c6 c7 c8 c9)
qed

text \<open>
  The four pairs of outcomes: both succeed; the token clear fails and the registration is
  removed all the same; the registration clear fails and the token is removed all the
  same; both fail, and \<^verbatim>\<open>invalidate\<close> returns normally after both calls.
\<close>

theorem invalidate_clears_both_witness:
  "fst (invalidate_settled (example_env None None (Inl MissingCodeError) True) example_profile
         (example_world None)) = (Inr (), Inr ())
   \<and> fst (invalidate_settled (example_env (Some (OtherError ''Error'' ''EACCES'')) None
         (Inl MissingCodeError) True) example_profile (example_world None))
       = (Inl (OtherError ''Error'' ''EACCES''), Inr ())
   \<and> registration_cache (snd (invalidate (example_env (Some (OtherError ''Error'' ''EACCES'')) None
         (Inl MissingCodeError) True) example_profile (example_world None)))
         (''us-east-1'', Some [''sso:account:access'']) = None
   \<and> fst (invalidate_settled (example_env None (Some (OtherError ''Error'' ''EACCES''))
         (Inl MissingCodeError) True) example_profile (example_world None))
       = (Inr (), Inl (OtherError ''Error'' ''EACCES''))
   \<and> token_cache (snd (invalidate (example_env None (Some (OtherError ''Error'' ''EACCES''))
         (Inl MissingCodeError) True) example_profile
         (example_world (Some (example_access (example_token ''a'' 0 None) None)))))
         ''https://d-0123456789.awsapps.com/start'' = None
   \<and> fst (invalidate (example_env (Some (OtherError ''Error'' ''EACCES''))
         (Some (OtherError ''Error'' ''EPERM'')) (Inl MissingCodeError) True) example_profile
         (example_world None)) = Inr ()
   \<and> trace (snd (invalidate (example_env (Some (OtherError ''Error'' ''EACCES''))
         (Some (OtherError ''Error'' ''EPERM'')) (Inl MissingCodeError) True) example_profile
         (example_world None)))
       = [TokenClear ''https://d-0123456789.awsapps.com/start'' ''SsoAccessTokenProvider.invalidate()'',
          RegistrationClear (''us-east-1'', Some [''sso:account:access''])
            ''SsoAccessTokenProvider.invalidate()'']"
  using
    invalidate_clears_both [of "example_env None None (Inl MissingCodeError) True" example_profile
      "example_world None"]
    invalidate_clears_both [of "example_env (Some (OtherError ''Error'' ''EACCES'')) None
      (Inl MissingCodeError) True" example_profile "example_world None"]
    invalidate_clears_both [of "example_env None (Some (OtherError ''Error'' ''EACCES''))
      (Inl MissingCodeError) True" example_profile "example_world None"]
    invalidate_clears_both [of "example_env None (Some (OtherError ''Error'' ''EACCES''))
      (Inl MissingCodeError) True" example_profile
      "example_world (Some (example_access (example_token ''a'' 0 None) None))"]
    invalidate_clears_both [of "example_env (Some (OtherError ''Error'' ''EACCES''))
      (Some (OtherError ''Error'' ''EPERM'')) (Inl MissingCodeError) True" example_profile
      "example_world None"]
  by (simp add: example_defs tokenCacheKey_def registrationCacheKey_def cache_token_clear_def
      cache_registration_clear_def emit_def Let_def)

section \<open>The access token provider: a failed refresh\<close>

text \<open>
  Claim C4 as stated fails where the clear of the cached token itself fails: the refresh
  fails with a client fault of the provider, the \<^verbatim>\<open>catch\<close> block awaits the clear, the
  clear rejects with a disk error, and \<^verbatim>\<open>refreshToken\<close> throws the disk error, not the
  client fault.
\<close>

theorem clear_failure_counterexample:
  "fst (refreshToken_try (example_env (Some disk_error) None (Inl client_fault) True) example_profile
          old_token (example_registration 9000000) cached_world) = Inl client_fault
   \<and> fst (refreshToken (example_env (Some disk_error) None (Inl client_fault) True) example_profile
          old_token (example_registration 9000000) cached_world) = Inl disk_error
   \<and> fst (refreshToken (example_env (Some disk_error) None (Inl client_fault) True) example_profile
          old_token (example_registration 9000000) cached_world) \<noteq> Inl client_fault"
  by (simp add: provider_defs example_defs failure_defs Let_def)

text \<open>
  Claim C4, amended: whenever the \<^verbatim>\<open>try\<close> block of \<^verbatim>\<open>refreshToken\<close> fails, it has
  changed neither cache. If the failure is a network error, \<^verbatim>\<open>refreshToken\<close> throws it
  with no telemetry among the calls made and no cache entry changed. If it is not a
  network error, the metric of the refresh is emitted. If it is moreover a client fault
  reported by the provider, the clear of the cached token is called, the token entry is
  removed when that clear succeeds, and the registration cache is left as it was; if it
  is not, both caches are left as they were. The original error is thrown again in every
  case but one: when the clear of the cached token is called and fails, the error of the
  clear is what \<^verbatim>\<open>refreshToken\<close> throws, and both caches are left as they were.
\<close>

theorem refreshToken_failure:
  assumes "refreshToken_try env profile token registration w = (Inl err, w1)"
  shows
    "(isNetworkError env err \<longrightarrow>
        refreshToken env profile token registration w = (Inl err, w1)
        \<and> (\<exists>evs. trace w1 = trace w @ evs \<and> (\<forall>ev \<in> set evs. \<not> is_telemetry ev))
        \<and> token_cache w1 = token_cache w \<and> registration_cache w1 = registration_cache w)
     \<and> (\<not> isNetworkError env err \<longrightarrow>
        Emit_refreshCredentials (refresh_metric env profile w err)
          \<in> set (trace (snd (refreshToken env profile token registration w))))
     \<and> (\<not> isNetworkError env err \<and> is_SSOOIDCServiceException err \<and> isClientFault env err \<longrightarrow>
        TokenClear (tokenCacheKey profile) (''client fault: SSOOIDCServiceException: '' @ svc_message err)
          \<in> set (trace (snd (refreshToken env profile token registration w)))
        \<and> (token_clear_error env = None \<longrightarrow>
             token_cache (snd (refreshToken env profile token registration w))
               = (token_cache w)(tokenCacheKey profile := None))
        \<and> registration_cache (snd (refreshToken env profile token registration w))
             = registration_cache w)
     \<and> (\<not> isNetworkError env err \<and> \<not> (is_SSOOIDCServiceException err \<and> isClientFault env err) \<longrightarrow>
        token_cache (snd (refreshToken env profile token registration w)) = token_cache w
        \<and> registration_cache (snd (refreshToken env profile token registration w))
             = registration_cache w)
     \<and> (isNetworkError env err \<or> \<not> (is_SSOOIDCServiceException err \<and> isClientFault env err)
          \<or> token_clear_error env = None \<longrightarrow>
        fst (refreshToken env profile token registration w) = Inl err)
     \<and> (\<not> isNetworkError env err \<and> is_SSOOIDCServiceException err \<and> isClientFault env err
          \<and> token_clear_error env = Some clearErr \<longrightarrow>
        fst (refreshToken env profile token registration w) = Inl clearErr
        \<and> token_cache (snd (refreshToken env profile token registration w)) = token_cache w
        \<and> registration_cache (snd (refreshToken env profile token registration w))
             = registration_cache w)"
proof -
  note frame = refreshToken_try_failure [OF assms]
  have run: "refreshToken env profile token registration w = refreshToken_catch env profile err w1"
    using assms by (rule refreshToken_failed)
  have metric: "refresh_metric env profile w1 err = refresh_metric env profile w err"
    by (simp add: refresh_metric_def frame)
  have c1: "isNetworkError env err \<longrightarrow>
        refreshToken env profile token registration w = (Inl err, w1)
        \<and> (\<exists>evs. trace w1 = trace w @ evs \<and> (\<forall>ev \<in> set evs. \<not> is_telemetry ev))
        \<and> token_cache w1 = token_cache w \<and> registration_cache w1 = registration_cache w"
    using refreshToken_try_extends [of env profile token registration w] assms
    by (auto simp add: run refreshToken_catch_eq frame)
  have c2: "\<not> isNetworkError env err \<longrightarrow>
        Emit_refreshCredentials (refresh_metric env profile w err)
          \<in> set (trace (snd (refreshToken env profile token registration w)))"
    by (simp add: run refreshToken_catch_eq metric)
  have c3: "\<not> isNetworkError env err \<and> is_SSOOIDCServiceException err \<and> isClientFault env err \<longrightarrow>
        TokenClear (tokenCacheKey profile) (''client fault: SSOOIDCServiceException: '' @ svc_message err)
          \<in> set (trace (snd (refreshToken env profile token registration w)))
        \<and> (token_clear_error env = None \<longrightarrow>
             token_cache (snd (refreshToken env profile token registration w))
               = (token_cache w)(tokenCacheKey profile := None))
        \<and> registration_cache (snd (refreshToken env profile token registration w))
             = registration_cache w"
    by (simp add: run refreshToken_catch_eq cache_token_clear_cache frame)
  have c4: "\<not> isNetworkError env err \<and> \<not> (is_SSOOIDCServiceException err \<and> isClientFault env err) \<longrightarrow>
        token_cache (snd (refreshToken env profile token registration w)) = token_cache w
        \<and> registration_cache (snd (refreshToken env profile token registration w))
             = registration_cache w"
    by (auto simp add: run refreshToken_catch_eq frame)
  have c5: "isNetworkError env err \<or> \<not> (is_SSOOIDCServiceException err \<and> isClientFault env err)
          \<or> token_clear_error env = None \<longrightarrow>
        fst (refreshToken env profile token registration w) = Inl err"
    by (auto simp add: run refreshToken_catch_eq)
  have c6: "\<not> isNetworkError env err \<and> is_SSOOIDCServiceException err \<and> isClientFault env err
          \<and> token_clear_error env = Some clearErr \<longrightarrow>
        fst (refreshToken env profile token registration w) = Inl clearErr
        \<and> token_cache (snd (refreshToken env profile token registration w)) = token_cache w
        \<and> registration_cache (snd (refreshToken env profile token registration w))
             = registration_cache w"
    by (simp add: run refreshToken_catch_eq cache_token_clear_cache frame)
  show ?thesis
    by (intro conjI c1 c2 c3 c4 c5 c6)
qed

text \<open>
  A network error, a server fault and a client fault of the provider, answered to the
  refresh of the expired example token, and the client fault once more with a clear that
  fails with a disk error: the disk error is thrown, and the token stays in the cache.
\<close>

theorem refreshToken_failure_witness:
  "refreshToken (example_env None None (Inl network_error) True) example_profile
       old_token (example_registration 9000000) cached_world
     = (Inl network_error,
        emit (OidcCreateToken (refresh_request old_token (example_registration 9000000))) cached_world)
   \<and> fst (refreshToken (example_env None None (Inl server_fault) True) example_profile
       old_token (example_registration 9000000) cached_world) = Inl server_fault
   \<and> trace (snd (refreshToken (example_env None None (Inl server_fault) True) example_profile
       old_token (example_registration 9000000) cached_world))
     = [OidcCreateToken (refresh_request old_token (example_registration 9000000)),
        Emit_refreshCredentials \<lparr> m_result = ''Failed'', m_reason = None, m_requestId = None,
          m_sessionDuration = Some 600500, m_credentialType = ''bearerToken'',
          m_credentialSourceId = ''iamIdentityCenter'' \<rparr>]
   \<and> fst (refreshToken (example_env None None (Inl client_fault) True) example_profile
       old_token (example_registration 9000000) cached_world) = Inl client_fault
   \<and> token_cache (snd (refreshToken (example_env None None (Inl client_fault) True) example_profile
       old_token (example_registration 9000000) cached_world))
       ''https://d-0123456789.awsapps.com/start'' = None
   \<and> registration_cache (snd (refreshToken (example_env None None (Inl client_fault) True) example_profile
       old_token (example_registration 9000000) cached_world))
       (''us-east-1'', Some [''sso:account:access'']) = Some (example_registration 9000000)
   \<and> fst (refreshToken (example_env (Some disk_error) None (Inl client_fault) True) example_profile
       old_token (example_registration 9000000) cached_world) = Inl disk_error
   \<and> token_cache (snd (refreshToken (example_env (Some disk_error) None (Inl client_fault) True)
       example_profile old_token (example_registration 9000000) cached_world))
       ''https://d-0123456789.awsapps.com/start''
     = Some (example_access old_token (Some (example_registration 9000000)))"
proof -
  have t1: "refreshToken_try (example_env None None (Inl network_error) True) example_profile
       old_token (example_registration 9000000) cached_world
     = (Inl network_error,
        emit (OidcCreateToken (refresh_request old_token (example_registration 9000000))) cached_world)"
    by (simp add: refreshToken_try_eq example_env_def)
  have t2: "refreshToken_try (example_env None None (Inl server_fault) True) example_profile
       old_token (example_registration 9000000) cached_world
     = (Inl server_fault,
        emit (OidcCreateToken (refresh_request old_token (example_registration 9000000))) cached_world)"
    by (simp add: refreshToken_try_eq example_env_def)
  have t3: "refreshToken_try (example_env None None (Inl client_fault) True) example_profile
       old_token (example_registration 9000000) cached_world
     = (Inl client_fault,
        emit (OidcCreateToken (refresh_request old_token (example_registration 9000000))) cached_world)"
    by (simp add: refreshToken_try_eq example_env_def)
  have e2: "trace (snd (refreshToken (example_env None None (Inl server_fault) True) example_profile
       old_token (example_registration 9000000) cached_world))
     = [OidcCreateToken (refresh_request old_token (example_registration 9000000)),
        Emit_refreshCredentials \<lparr> m_result = ''Failed'', m_reason = None, m_requestId = None,
          m_sessionDuration = Some 600500, m_credentialType = ''bearerToken'',
          m_credentialSourceId = ''iamIdentityCenter'' \<rparr>]"
    by (simp add: provider_defs example_defs failure_defs refresh_request_def Let_def)
  have t4: "refreshToken_try (example_env (Some disk_error) None (Inl client_fault) True)
       example_profile old_token (example_registration 9000000) cached_world
     = (Inl client_fault,
        emit (OidcCreateToken (refresh_request old_token (example_registration 9000000))) cached_world)"
    by (simp add: refreshToken_try_eq example_env_def)
  show ?thesis
    using refreshToken_failure [OF t1] refreshToken_failure [OF t2] refreshToken_failure [OF t3]
      refreshToken_failure [OF t4, of disk_error] e2
    by (simp add: example_defs failure_defs tokenCacheKey_def)
qed

section \<open>The access token provider: the cached token\<close>

text \<open>
  Claim C1: for every cached state whose entry can be loaded, \<^verbatim>\<open>getToken\<close> returns the
  cached token unchanged when it is unexpired. When the token is expired and the entry's
  registration is present and unexpired and the token has a refresh token, \<^verbatim>\<open>getToken\<close>
  is the refresh: it returns the token of the refreshed entry, or throws what the refresh
  throws; when the OIDC client answers with a token and the save succeeds, the result is
  that token, and the cache holds it with the registration. When the token is expired and
  there is no such registration and refresh token, \<^verbatim>\<open>getToken\<close> calls the clear of the
  token entry and of the registration entry (each entry is removed when its clear
  succeeds) and returns nothing. In no case does \<^verbatim>\<open>getToken\<close> start the interactive
  flow: none of the calls it adds to the record is one of that flow.
\<close>

theorem getToken_cases:
  "(token_load_error env = None \<and> token_cache w (tokenCacheKey profile) = Some access
      \<and> \<not> isExpired env (cr_token access) \<longrightarrow>
      getToken env profile w = (Inr (Some (cr_token access)), emit (TokenLoad (tokenCacheKey profile)) w))
   \<and> (token_load_error env = None \<and> token_cache w (tokenCacheKey profile) = Some access
      \<and> isExpired env (cr_token access) \<and> cr_registration access = Some registration
      \<and> \<not> isExpired env registration \<and> tk_refreshToken (cr_token access) \<noteq> None \<longrightarrow>
      getToken env profile w =
        (case refreshToken env profile (cr_token access) registration
                (emit (TokenLoad (tokenCacheKey profile)) w) of
           (Inl err, w2) \<Rightarrow> (Inl err, w2)
         | (Inr refreshed, w2) \<Rightarrow> (Inr (Some (cr_token refreshed)), w2))
      \<and> (oidc_createToken env (refresh_request (cr_token access) registration) = Inr response
           \<and> token_save_error env = None \<longrightarrow>
         fst (getToken env profile w) = Inr (Some response)
         \<and> token_cache (snd (getToken env profile w)) (tokenCacheKey profile)
              = Some (formatToken profile response registration)
         \<and> trace (snd (getToken env profile w)) =
              trace w @ [TokenLoad (tokenCacheKey profile),
                         OidcCreateToken (refresh_request (cr_token access) registration),
                         TokenSave (tokenCacheKey profile) (formatToken profile response registration)]))
   \<and> (token_load_error env = None \<and> token_cache w (tokenCacheKey profile) = Some access
      \<and> isExpired env (cr_token access) \<and> \<not> refreshable env access \<longrightarrow>
      fst (getToken env profile w) = Inr None
      \<and> trace (snd (getToken env profile w)) =
           trace w @ [TokenLoad (tokenCacheKey profile),
                      TokenClear (tokenCacheKey profile) ''SsoAccessTokenProvider.invalidate()'',
                      RegistrationClear (registrationCacheKey profile) ''SsoAccessTokenProvider.invalidate()'']
      \<and> (token_clear_error env = None \<longrightarrow>
           token_cache (snd (getToken env profile w)) (tokenCacheKey profile) = None)
      \<and> (registration_clear_error env = None \<longrightarrow>
           registration_cache (snd (getToken env profile w)) (registrationCacheKey profile) = None))
   \<and> (\<exists>evs. trace (snd (getToken env profile w)) = trace w @ evs
         \<and> (\<forall>ev \<in> set evs. \<not> interactive ev))"
proof -
  have c1: "token_load_error env = None \<and> token_cache w (tokenCacheKey profile) = Some access
      \<and> \<not> isExpired env (cr_token access) \<longrightarrow>
      getToken env profile w = (Inr (Some (cr_token access)), emit (TokenLoad (tokenCacheKey profile)) w)"
    by (simp add: getToken_unexpired)
  have c2: "token_load_error env = None \<and> token_cache w (tokenCacheKey profile) = Some access
      \<and> isExpired env (cr_token access) \<and> cr_registration access = Some registration
      \<and> \<not> isExpired env registration \<and> tk_refreshToken (cr_token access) \<noteq> None \<longrightarrow>
      getToken env profile w =
        (case refreshToken env profile (cr_token access) registration
                (emit (TokenLoad (tokenCacheKey profile)) w) of
           (Inl err, w2) \<Rightarrow> (Inl err, w2)
         | (Inr refreshed, w2) \<Rightarrow> (Inr (Some (cr_token refreshed)), w2))
      \<and> (oidc_createToken env (refresh_request (cr_token access) registration) = Inr response
           \<and> token_save_error env = None \<longrightarrow>
         fst (getToken env profile w) = Inr (Some response)
         \<and> token_cache (snd (getToken env profile w)) (tokenCacheKey profile)
              = Some (formatToken profile response registration)
         \<and> trace (snd (getToken env profile w)) =
              trace w @ [TokenLoad (tokenCacheKey profile),
                         OidcCreateToken (refresh_request (cr_token access) registration),
                         TokenSave (tokenCacheKey profile) (formatToken profile response registration)])"
  proof (intro impI, elim conjE)
    assume h: "token_load_error env = None" "token_cache w (tokenCacheKey profile) = Some access"
      "isExpired env (cr_token access)" "cr_registration access = Some registration"
      "\<not> isExpired env registration" "tk_refreshToken (cr_token access) \<noteq> None"
    note run = getToken_refresh [OF h]
    have ok: "oidc_createToken env (refresh_request (cr_token access) registration) = Inr response
           \<and> token_save_error env = None \<longrightarrow>
         fst (getToken env profile w) = Inr (Some response)
         \<and> token_cache (snd (getToken env profile w)) (tokenCacheKey profile)
              = Some (formatToken profile response registration)
         \<and> trace (snd (getToken env profile w)) =
              trace w @ [TokenLoad (tokenCacheKey profile),
                         OidcCreateToken (refresh_request (cr_token access) registration),
                         TokenSave (tokenCacheKey profile) (formatToken profile response registration)]"
      by (simp add: run refreshToken_success formatToken_def)
    show "getToken env profile w =
        (case refreshToken env profile (cr_token access) registration
                (emit (TokenLoad (tokenCacheKey profile)) w) of
           (Inl err, w2) \<Rightarrow> (Inl err, w2)
         | (Inr refreshed, w2) \<Rightarrow> (Inr (Some (cr_token refreshed)), w2))
      \<and> (oidc_createToken env (refresh_request (cr_token access) registration) = Inr response
           \<and> token_save_error env = None \<longrightarrow>
         fst (getToken env profile w) = Inr (Some response)
         \<and> token_cache (snd (getToken env profile w)) (tokenCacheKey profile)
              = Some (formatToken profile response registration)
         \<and> trace (snd (getToken env profile w)) =
              trace w @ [TokenLoad (tokenCacheKey profile),
                         OidcCreateToken (refresh_request (cr_token access) registration),
                         TokenSave (tokenCacheKey profile) (formatToken profile response registration)])"
      using run ok by (intro conjI)
  qed
  have c3: "token_load_error env = None \<and> token_cache w (tokenCacheKey profile) = Some access
      \<and> isExpired env (cr_token access) \<and> \<not> refreshable env access \<longrightarrow>
      fst (getToken env profile w) = Inr None
      \<and> trace (snd (getToken env profile w)) =
           trace w @ [TokenLoad (tokenCacheKey profile),
                      TokenClear (tokenCacheKey profile) ''SsoAccessTokenProvider.invalidate()'',
                      RegistrationClear (registrationCacheKey profile) ''SsoAccessTokenProvider.invalidate()'']
      \<and> (token_clear_error env = None \<longrightarrow>
           token_cache (snd (getToken env profile w)) (tokenCacheKey profile) = None)
      \<and> (registration_clear_error env = None \<longrightarrow>
           registration_cache (snd (getToken env profile w)) (registrationCacheKey profile) = None)"
    by (simp add: getToken_invalidate invalidate_trace invalidate_token_cache
        invalidate_registration_cache invalidate_reason_def)
  have c4: "\<exists>evs. trace (snd (getToken env profile w)) = trace w @ evs
         \<and> (\<forall>ev \<in> set evs. \<not> interactive ev)"
    by (rule getToken_extends)
  show ?thesis
    by (intro conjI c1 c2 c3 c4)
qed

text \<open>
  An unexpired token is returned as it is; the expired example token is refreshed to the
  new one; an expired token with no refresh token is cleared with its registration.
\<close>

theorem getToken_cases_witness:
  "getToken (example_env None None (Inr new_token) True) example_profile
      (example_world (Some (example_access (example_token ''valid'' 2000000 None) None)))
     = (Inr (Some (example_token ''valid'' 2000000 None)),
        emit (TokenLoad ''https://d-0123456789.awsapps.com/start'')
          (example_world (Some (example_access (example_token ''valid'' 2000000 None) None))))
   \<and> fst (getToken (example_env None None (Inr new_token) True) example_profile cached_world)
       = Inr (Some new_token)
   \<and> token_cache (snd (getToken (example_env None None (Inr new_token) True) example_profile cached_world))
        ''https://d-0123456789.awsapps.com/start''
       = Some (example_access new_token (Some (example_registration 9000000)))
   \<and> fst (getToken (example_env None None (Inr new_token) True) example_profile
        (example_world (Some (example_access (example_token ''old'' 1000000 None)
           (Some (example_registration 9000000)))))) = Inr None
   \<and> token_cache (snd (getToken (example_env None None (Inr new_token) True) example_profile
        (example_world (Some (example_access (example_token ''old'' 1000000 None)
           (Some (example_registration 9000000)))))))
        ''https://d-0123456789.awsapps.com/start'' = None
   \<and> registration_cache (snd (getToken (example_env None None (Inr new_token) True) example_profile
        (example_world (Some (example_access (example_token ''old'' 1000000 None)
           (Some (example_registration 9000000)))))))
        (''us-east-1'', Some [''sso:account:access'']) = None
   \<and> trace (snd (getToken (example_env None None (Inr new_token) True) example_profile cached_world))
       = [TokenLoad ''https://d-0123456789.awsapps.com/start'',
          OidcCreateToken (refresh_request old_token (example_registration 9000000)),
          TokenSave ''https://d-0123456789.awsapps.com/start''
            (example_access new_token (Some (example_registration 9000000)))]"
proof -
  let ?env = "example_env None None (Inr new_token) True"
  let ?key = "''https://d-0123456789.awsapps.com/start''"
  let ?valid = "example_access (example_token ''valid'' 2000000 None) None"
  let ?stale = "example_access old_token (Some (example_registration 9000000))"
  let ?dead = "example_access (example_token ''old'' 1000000 None) (Some (example_registration 9000000))"
  have key: "tokenCacheKey example_profile = ?key"
    and rkey: "registrationCacheKey example_profile = (''us-east-1'', Some [''sso:account:access''])"
    by (simp_all add: tokenCacheKey_def registrationCacheKey_def example_profile_def)
  have env: "token_load_error ?env = None" "token_save_error ?env = None"
    "token_clear_error ?env = None" "registration_clear_error ?env = None"
    "oidc_createToken ?env (refresh_request old_token (example_registration 9000000)) = Inr new_token"
    by (simp_all add: example_env_def)
  have h1: "token_cache (example_world (Some ?valid)) (tokenCacheKey example_profile) = Some ?valid
      \<and> \<not> isExpired ?env (cr_token ?valid)"
    by (simp add: tokenCacheKey_def example_defs isExpired_def expirationBufferMs_def)
  have h2: "token_cache cached_world (tokenCacheKey example_profile) = Some ?stale
      \<and> isExpired ?env (cr_token ?stale)
      \<and> cr_registration ?stale = Some (example_registration 9000000)
      \<and> \<not> isExpired ?env (example_registration 9000000)
      \<and> tk_refreshToken (cr_token ?stale) \<noteq> None"
    by (simp add: tokenCacheKey_def example_defs failure_defs isExpired_def expirationBufferMs_def)
  have h3: "token_cache (example_world (Some ?dead)) (tokenCacheKey example_profile) = Some ?dead
      \<and> isExpired ?env (cr_token ?dead) \<and> \<not> refreshable ?env ?dead"
    by (simp add: tokenCacheKey_def example_defs isExpired_def expirationBufferMs_def refreshable_def)
  have ok: "oidc_createToken ?env (refresh_request (cr_token ?stale) (example_registration 9000000))
        = Inr new_token \<and> token_save_error ?env = None"
    by (simp add: example_env_def)
  have r1: "getToken ?env example_profile (example_world (Some ?valid))
      = (Inr (Some (cr_token ?valid)),
         emit (TokenLoad (tokenCacheKey example_profile)) (example_world (Some ?valid)))"
    using getToken_cases [of ?env "example_world (Some ?valid)" example_profile ?valid] h1 env(1)
    by blast
  have r2: "fst (getToken ?env example_profile cached_world) = Inr (Some new_token)
      \<and> token_cache (snd (getToken ?env example_profile cached_world)) (tokenCacheKey example_profile)
           = Some (formatToken example_profile new_token (example_registration 9000000))
      \<and> trace (snd (getToken ?env example_profile cached_world)) =
           trace cached_world @ [TokenLoad (tokenCacheKey example_profile),
             OidcCreateToken (refresh_request (cr_token ?stale) (example_registration 9000000)),
             TokenSave (tokenCacheKey example_profile)
               (formatToken example_profile new_token (example_registration 9000000))]"
    using getToken_cases [of ?env cached_world example_profile ?stale "example_registration 9000000"
        new_token] h2 ok env(1)
    by blast
  have r3: "fst (getToken ?env example_profile (example_world (Some ?dead))) = Inr None
      \<and> token_cache (snd (getToken ?env example_profile (example_world (Some ?dead))))
           (tokenCacheKey example_profile) = None
      \<and> registration_cache (snd (getToken ?env example_profile (example_world (Some ?dead))))
           (registrationCacheKey example_profile) = None"
    using getToken_cases [of ?env "example_world (Some ?dead)" example_profile ?dead] h3 env(1,3,4)
    by blast
  have fmt: "formatToken example_profile new_token (example_registration 9000000)
      = example_access new_token (Some (example_registration 9000000))"
    by (simp add: formatToken_def example_access_def example_profile_def)
  have tr: "trace cached_world = []"
    by (simp add: cached_world_def example_world_def)
  show ?thesis
    using r1 r2 r3 by (simp add: key rkey fmt tr example_access_def)
qed

text \<open>
  Claim C10: when the load succeeds and finds no entry under the profile's token cache
  key, \<^verbatim>\<open>getToken\<close> returns nothing, leaves both caches as they were and calls nothing
  but the load. Whenever a clear of the token cache or of the registration cache is among
  the calls \<^verbatim>\<open>getToken\<close> adds to the record, a cached entry exists and its token is
  expired.
\<close>

theorem getToken_no_cached_record:
  "(token_load_error env = None \<and> token_cache w (tokenCacheKey profile) = None \<longrightarrow>
      getToken env profile w = (Inr None, emit (TokenLoad (tokenCacheKey profile)) w)
      \<and> token_cache (snd (getToken env profile w)) = token_cache w
      \<and> registration_cache (snd (getToken env profile w)) = registration_cache w
      \<and> trace (snd (getToken env profile w)) = trace w @ [TokenLoad (tokenCacheKey profile)])
   \<and> (trace (snd (getToken env profile w)) = trace w @ evs
        \<and> (TokenClear k r \<in> set evs \<or> RegistrationClear rk r \<in> set evs) \<longrightarrow>
      (\<exists>access. token_cache w (tokenCacheKey profile) = Some access \<and> isExpired env (cr_token access)))"
proof -
  have c1: "token_load_error env = None \<and> token_cache w (tokenCacheKey profile) = None \<longrightarrow>
      getToken env profile w = (Inr None, emit (TokenLoad (tokenCacheKey profile)) w)
      \<and> token_cache (snd (getToken env profile w)) = token_cache w
      \<and> registration_cache (snd (getToken env profile w)) = registration_cache w
      \<and> trace (snd (getToken env profile w)) = trace w @ [TokenLoad (tokenCacheKey profile)]"
    by (simp add: getToken_absent)
  have c2: "trace (snd (getToken env profile w)) = trace w @ evs
        \<and> (TokenClear k r \<in> set evs \<or> RegistrationClear rk r \<in> set evs) \<longrightarrow>
      (\<exists>access. token_cache w (tokenCacheKey profile) = Some access \<and> isExpired env (cr_token access))"
  proof (cases "token_load_error env")
    case (Some e)
    then show ?thesis by (auto simp add: getToken_load_failed)
  next
    case None
    show ?thesis
    proof (cases "token_cache w (tokenCacheKey profile)")
      case absent: None
      with None show ?thesis by (auto simp add: getToken_absent)
    next
      case (Some access)
      show ?thesis
      proof (cases "isExpired env (cr_token access)")
        case False
        with None Some show ?thesis by (auto simp add: getToken_unexpired)
      next
        case True
        with Some show ?thesis by simp
      qed
    qed
  qed
  show ?thesis
    by (intro conjI c1 c2)
qed

text \<open>
  The example state with an empty token cache: the registration stays in its cache.
\<close>

theorem getToken_no_cached_record_witness:
  "getToken (example_env None None (Inr new_token) True) example_profile (example_world None)
     = (Inr None, emit (TokenLoad ''https://d-0123456789.awsapps.com/start'') (example_world None))
   \<and> registration_cache (snd (getToken (example_env None None (Inr new_token) True) example_profile
        (example_world None))) (''us-east-1'', Some [''sso:account:access''])
       = Some (example_registration 9000000)
   \<and> trace (snd (getToken (example_env None None (Inr new_token) True) example_profile
        (example_world None))) = [TokenLoad ''https://d-0123456789.awsapps.com/start'']"
  using getToken_no_cached_record [of "example_env None None (Inr new_token) True" "example_world None"
      example_profile]
  by (simp add: example_defs tokenCacheKey_def)

section \<open>The interactive flow: the browser is not opened\<close>

text \<open>
  Claim C7 as stated fails: when \<^verbatim>\<open>openExternal\<close> returns \<^verbatim>\<open>false\<close>, \<^verbatim>\<open>authorize\<close>
  fails with the \<^verbatim>\<open>ToolkitError\<close> of \<^verbatim>\<open>openSsoPortalLink\<close>, whose code and name are
  \<^verbatim>\<open>TrustedDomainCancellation\<close>, not with \<^verbatim>\<open>CancellationError('user')\<close>.
\<close>

theorem authorize_declined_counterexample:
  "fst (authorize (example_env None None (Inl MissingCodeError) False) example_profile
         (example_registration 9000000) (example_world None))
     = Some (Inl (Toolkit ToolkitError_class
          ''User clicked 'Copy' or 'Cancel' during the Trusted Domain popup''
          (Some ''TrustedDomainCancellation'') (Some ''TrustedDomainCancellation'') True))
   \<and> fst (authorize (example_env None None (Inl MissingCodeError) False) example_profile
         (example_registration 9000000) (example_world None))
     \<noteq> Some (Inl (CancellationError ''user''))"
  by (simp add: authorize_def authorize_try_def Let_def example_defs start_def new_AuthSSOServer_def
      redirectUri_def getPort_def number_toString_def example_digits openSsoPortalLink_def
      telemetry_run_loginWithBrowser_def openSsoUrl_def emit_def close_def
      trustedDomainCancellation_def)

text \<open>
  Claim C7, amended: in \<^verbatim>\<open>authorize\<close>, when the listener is started on a TCP port, the
  OIDC client gives the authorization URL and \<^verbatim>\<open>openExternal\<close> returns \<^verbatim>\<open>false\<close> for it,
  the operation fails with the \<^verbatim>\<open>ToolkitError\<close> whose code and name are
  \<^verbatim>\<open>TrustedDomainCancellation\<close> and whose \<^verbatim>\<open>cancelled\<close> flag is set. This error is none
  of \<^verbatim>\<open>AuthError\<close>, \<^verbatim>\<open>MissingCodeError\<close>, \<^verbatim>\<open>MissingStateError\<close> and
  \<^verbatim>\<open>InvalidStateError\<close>, and it is not \<^verbatim>\<open>CancellationError('user')\<close>:
  \<^verbatim>\<open>openSsoPortalLink\<close> never returns \<^verbatim>\<open>false\<close>. The login metric is emitted with the
  result \<^verbatim>\<open>Failed\<close>, and the listener is closed.
\<close>

theorem authorize_browser_declined:
  assumes "listen_result env = Listening (AddressInfo p)"
    and "oidc_authorize env (authorize_request env profile registration p) = Inr location"
    and "openExternal env location = Inr False"
  shows "fst (authorize env profile registration w) = Some (Inl declined_error)
     \<and> err_class declined_error = ToolkitError_class
     \<and> err_code declined_error = Some ''TrustedDomainCancellation''
     \<and> err_name declined_error = Some ''TrustedDomainCancellation''
     \<and> err_cancelled declined_error
     \<and> declined_error \<noteq> CancellationError ''user''
     \<and> declined_error \<notin> {MissingCodeError, MissingStateError, InvalidStateError, AuthError e d}
     \<and> trace (snd (authorize env profile registration w)) =
          trace w @ [ServerStart, OidcAuthorize (authorize_request env profile registration p),
                     OpenExternal location, Emit_loginWithBrowser ''Failed'', ServerClose]
     \<and> fst (openSsoPortalLink env location w) \<noteq> Inr False"
proof -
  note run = authorize_try_declined [OF assms, of w]
  have res: "authorize env profile registration w =
     (Some (Inl declined_error),
      emit ServerClose (emit (Emit_loginWithBrowser ''Failed'') (emit (OpenExternal location)
        (emit (OidcAuthorize (authorize_request env profile registration p)) (emit ServerStart w)))))"
    by (simp add: authorize_def Let_def run close_listening)
  have c1: "fst (authorize env profile registration w) = Some (Inl declined_error)"
    by (simp add: res)
  have c2: "err_class declined_error = ToolkitError_class
     \<and> err_code declined_error = Some ''TrustedDomainCancellation''
     \<and> err_name declined_error = Some ''TrustedDomainCancellation''
     \<and> err_cancelled declined_error
     \<and> declined_error \<noteq> CancellationError ''user''
     \<and> declined_error \<notin> {MissingCodeError, MissingStateError, InvalidStateError, AuthError e d}"
    by (simp add: declined_error_def error_defs)
  have c3: "trace (snd (authorize env profile registration w)) =
          trace w @ [ServerStart, OidcAuthorize (authorize_request env profile registration p),
                     OpenExternal location, Emit_loginWithBrowser ''Failed'', ServerClose]"
    by (simp add: res)
  show ?thesis
    using c1 c2 c3 openSsoPortalLink_never_false [of env location w] by simp
qed

text \<open>
  The example collaborators with a browser that does not open.
\<close>

theorem authorize_browser_declined_witness:
  "fst (authorize (example_env None None (Inl MissingCodeError) False) example_profile
         (example_registration 9000000) (example_world None)) = Some (Inl declined_error)
   \<and> trace (snd (authorize (example_env None None (Inl MissingCodeError) False) example_profile
         (example_registration 9000000) (example_world None))) =
       [ServerStart,
        OidcAuthorize \<lparr> az_responseType = ''code'', az_clientId = ''client-id'',
          az_redirectUri = ''http://127.0.0.1:60821'', az_scopes = [''sso:account:access''],
          az_state = ''7f8c1e0a'', az_codeChallenge = ''challenge'', az_codeChallengeMethod = ''S256'' \<rparr>,
        OpenExternal ''https://oidc.us-east-1.amazonaws.com/authorize'',
        Emit_loginWithBrowser ''Failed'', ServerClose]"
proof -
  have h1: "listen_result (example_env None None (Inl MissingCodeError) False) = Listening (AddressInfo 60821)"
    by (simp add: example_env_def)
  have h2: "oidc_authorize (example_env None None (Inl MissingCodeError) False)
      (authorize_request (example_env None None (Inl MissingCodeError) False) example_profile
         (example_registration 9000000) 60821) = Inr ''https://oidc.us-east-1.amazonaws.com/authorize''"
    by (simp add: example_env_def)
  have h3: "openExternal (example_env None None (Inl MissingCodeError) False)
      ''https://oidc.us-east-1.amazonaws.com/authorize'' = Inr False"
    by (simp add: example_env_def)
  show ?thesis
    using authorize_browser_declined [OF h1 h2 h3, of "example_world None"]
    by (simp add: authorize_request_def example_defs example_digits)
qed

end
